theory Spec2Isabelle
  imports Main "HOL-Library.Sublist" "HOL-Library.AList"
begin

section \<open>JavaScript strings\<close>

text \<open>
  A JavaScript string is modelled as a \<^typ>\<open>string\<close>, one \<^typ>\<open>char\<close> per code
  unit; the scanner's inputs (paths, Swift identifiers, kind tags) are ASCII, where byte
  offsets and string indices agree. Each primitive below is the method of the same name of
  \<open>String.prototype\<close> (or \<open>Array.prototype\<close>), restricted to the way the scanner calls
  it.
\<close>

definition newline :: char where
  "newline = CHR 0x0A"

text \<open>\<open>s[i]\<close>: \<open>undefined\<close> (here \<open>None\<close>) outside the string.\<close>

definition charAt :: "string \<Rightarrow> nat \<Rightarrow> char option" where
  "charAt s i = (if i < length s then Some (s ! i) else None)"

definition startsWith :: "string \<Rightarrow> string \<Rightarrow> bool" where
  "startsWith s p = prefix p s"

definition endsWith :: "string \<Rightarrow> string \<Rightarrow> bool" where
  "endsWith s p = suffix p s"

text \<open>\<open>s.includes(sub)\<close>: \<open>sub\<close> occurs in \<open>s\<close> as a contiguous substring.\<close>

fun str_includes :: "string \<Rightarrow> string \<Rightarrow> bool" where
  "str_includes [] sub = (sub = [])"
| "str_includes (c # cs) sub = (prefix sub (c # cs) \<or> str_includes cs sub)"

text \<open>
  \<open>s.trim()\<close> removes white space and line terminators at both ends; among the code
  units below 256 these are TAB, LF, VT, FF, CR, SP and NBSP.
\<close>

definition isWhiteSpace :: "char \<Rightarrow> bool" where
  "isWhiteSpace c = (c \<in> set [CHR 0x09, CHR 0x0A, CHR 0x0B, CHR 0x0C, CHR 0x0D, CHR 0x20, CHR 0xA0])"

definition trim :: "string \<Rightarrow> string" where
  "trim s = rev (dropWhile isWhiteSpace (rev (dropWhile isWhiteSpace s)))"

text \<open>
  \<open>s.split(sep)\<close> for a non-empty separator: the pieces between the occurrences of
  \<open>sep\<close>, found from left to right. \<open>split_from\<close> carries the piece being read.
\<close>

function split_from :: "string \<Rightarrow> string \<Rightarrow> string \<Rightarrow> string list" where
  "split_from sep piece [] = [piece]"
| "split_from sep piece (c # cs) =
     (if sep \<noteq> [] \<and> prefix sep (c # cs)
      then piece # split_from sep [] (drop (length sep) (c # cs))
      else split_from sep (piece @ [c]) cs)"
  by pat_completeness auto
termination
  by (relation "measure (\<lambda>(sep, piece, s). length s)") auto

definition split :: "string \<Rightarrow> string \<Rightarrow> string list" where
  "split s sep = (if sep = [] then map (\<lambda>c. [c]) s else split_from sep [] s)"

text \<open>\<open>a.join(sep)\<close> and \<open>a.pop()\<close> (used for its effect on the array only).\<close>

fun join :: "string list \<Rightarrow> string \<Rightarrow> string" where
  "join [] sep = []"
| "join [x] sep = x"
| "join (x # y # ys) sep = x @ sep @ join (y # ys) sep"

definition pop :: "'a list \<Rightarrow> 'a list" where
  "pop a = butlast a"

text \<open>\<open>s.replace(pat, rep)\<close> with a string pattern: only the first occurrence is replaced.\<close>

fun replace :: "string \<Rightarrow> string \<Rightarrow> string \<Rightarrow> string" where
  "replace [] pat rep = (if pat = [] then rep else [])"
| "replace (c # cs) pat rep =
     (if prefix pat (c # cs) then rep @ drop (length pat) (c # cs)
      else c # replace cs pat rep)"

text \<open>\<open>s.lastIndexOf(c)\<close> for a one-character string: \<open>-1\<close> when \<open>c\<close> does not occur.\<close>

definition lastIndexOf :: "string \<Rightarrow> char \<Rightarrow> int" where
  "lastIndexOf s c =
     (if c \<in> set s
      then int (length s - 1 - length (takeWhile (\<lambda>x. x \<noteq> c) (rev s)))
      else - 1)"

text \<open>
  \<open>s.substring(start, stop)\<close>: both arguments are clamped to \<open>[0, length]\<close> and swapped
  when the first is the larger.
\<close>

definition substring :: "string \<Rightarrow> int \<Rightarrow> int \<Rightarrow> string" where
  "substring s start stop =
     (let n = int (length s);
          a = max 0 (min start n);
          b = max 0 (min stop n);
          lo = min a b;
          hi = max a b
      in take (nat (hi - lo)) (drop (nat lo) s))"

text \<open>\<open>s.toLowerCase()\<close> on code units below 256 (ASCII and Latin-1 capitals).\<close>

definition lower_char :: "char \<Rightarrow> char" where
  "lower_char c =
     (let n = (of_char c :: nat)
      in if (65 \<le> n \<and> n \<le> 90) \<or> (192 \<le> n \<and> n \<le> 222 \<and> n \<noteq> 215)
         then char_of (n + 32) else c)"

definition toLowerCase :: "string \<Rightarrow> string" where
  "toLowerCase s = map lower_char s"

section \<open>Offset to line and column\<close>

record location =
  line :: nat
  column :: nat
  offset :: nat

text \<open>
  The \<open>while\<close> loop of \<open>findLineAndColumn\<close>:
  \<open>while (lineStart > 0 && fileContent[lineStart - 1] !== '\n') lineStart--\<close>.
  An index past the end reads \<open>undefined\<close>, which differs from a newline, so the loop
  keeps going down.
\<close>

fun lineStart_loop :: "string \<Rightarrow> nat \<Rightarrow> nat" where
  "lineStart_loop fileContent 0 = 0"
| "lineStart_loop fileContent (Suc k) =
     (if charAt fileContent k = Some newline then Suc k else lineStart_loop fileContent k)"

text \<open>
  The \<open>for\<close> loop of \<open>findLineAndColumn\<close>: \<open>line\<close> starts at 1 and is incremented for
  every index below \<open>lineStart\<close> that holds a newline.
\<close>

definition count_lines :: "string \<Rightarrow> nat \<Rightarrow> nat" where
  "count_lines fileContent lineStart =
     fold (\<lambda>i ln. if charAt fileContent i = Some newline then ln + 1 else ln) [0..<lineStart] 1"

text \<open>
  \<open>findLineAndColumn(fileName, offset)\<close> reads the file itself (\<open>fs.readFileSync\<close>, here
  the parameter \<open>readFileSync\<close>, \<open>Inl\<close> the message of the error it throws). A failed read
  is caught and gives \<open>null\<close>, here \<open>None\<close>. The result carries \<open>line\<close> and \<open>column\<close>; the
  caller adds the offset to build the stored location.
\<close>

definition findLineAndColumn :: "(string \<Rightarrow> string + string) \<Rightarrow> string \<Rightarrow> nat \<Rightarrow> (nat \<times> nat) option" where
  "findLineAndColumn readFileSync fileName off =
     (case readFileSync fileName of
        Inl err \<Rightarrow> None
      | Inr fileContent \<Rightarrow>
          (let lineStart = lineStart_loop fileContent off;
               col = off - lineStart + 1;
               ln = count_lines fileContent lineStart
           in Some (ln, col)))"

section \<open>Data model\<close>

text \<open>
  An element of \<open>projectModulesList\<close>, as \<open>getDebugYaml\<close> pushes it. (Fields named
  \<open>name\<close>, \<open>path\<close>, \<open>kind\<close>, \<open>id\<close> or \<open>type\<close> in the source carry a prefix here.)
\<close>

record project_module =
  mod_name :: string
  mod_path :: string
  originalPath :: string
  mod_isThirdParty :: bool

text \<open>
  A suggestion of the completion oracle, as stored in \<open>componentsDataset\<close>. The dataset
  is an object from module names to arrays; its keys are visited in insertion order, so
  it is an association list.
\<close>

record catalog_entry =
  entry_name :: string
  entry_kind :: string
  moduleName :: string
  docBrief :: "string option"

type_synonym dataset = "(string \<times> catalog_entry list) list"

text \<open>
  A node of the structure that \<open>sourcekitten structure\<close> prints. \<open>key.kind\<close> and
  \<open>key.name\<close> may be absent (the root has neither), an absent \<open>key.substructure\<close> is
  the empty list.
\<close>

datatype node =
  Node (key_kind: "string option") (key_name: "string option") (key_offset: nat)
       (key_substructure: "node list")

text \<open>The metadata object that \<open>extractMetadata\<close> builds, field by field.\<close>

record metadata =
  meta_id :: string
  meta_name :: "string option"
  tags :: "string list"
  overriddenComponents :: "(string \<times> string) list"
  designSystems :: "string list"
  designDocs :: "string option"
  isSelfDeclared :: bool
  filewiseOccurences :: "(string \<times> nat) list"
  totalOccurences :: nat
  stories :: "string list"
  filewiseLocation :: "(string \<times> location list) list"
  meta_type :: string
  libraryName :: string
  thirdParty :: bool

text \<open>
  Metadata objects are mutated in place and shared between \<open>codebaseComponents\<close> and
  \<open>projectComponents\<close>, so they live in a heap: an object is its index in \<open>heap\<close>.
  \<open>codebaseComponents\<close> is an array in \<open>SwiftScanner.js\<close> and a plain object in the
  older copy of the file; \<open>items\<close> are the array elements, \<open>named\<close> the properties with
  other keys. \<open>extractMetadata\<close> returns a metadata object or, from its \<open>catch\<close>, the
  empty object \<open>{}\<close>.
\<close>

text \<open>
  \<open>thirdPartyDependencies\<close> is an array of dependencies when the constructor or
  \<open>getProjectModulesListFromDescribe\<close> has assigned it (the names are kept), and a plain
  object from module names to paths once the older copy's \<open>getDebugYaml\<close> has assigned
  it.
\<close>

datatype dependencies =
  DependencyArray "string list"
| DependencyObject "(string \<times> string) list"

record codebase_components =
  items :: "nat list"
  named :: "(string \<times> nat) list"

datatype extracted = Ref nat | EmptyObject

record scanner =
  projectModulesList :: "project_module list"
  thirdPartyDependencies :: dependencies
  componentsDataset :: dataset
  designSystemModules :: "string list option"
  heap :: "metadata list"
  codebaseComponents :: codebase_components
  projectComponents :: "extracted list"
  console :: "string list"

text \<open>
  What the scanner reads from outside: a file's content (\<open>fs.readFile\<close> and
  \<open>fs.readFileSync\<close>), the result of running a command (\<open>execSync\<close>) and
  \<open>JSON.parse\<close> on the structure oracle's output. \<open>Inl\<close> carries the message of the
  error thrown.
\<close>

record env =
  readFile :: "string \<Rightarrow> string + string"
  execSync :: "string \<Rightarrow> string + string"
  JSON_parse :: "string \<Rightarrow> string + node"

text \<open>
  The constructor. \<open>designSystemModules\<close> is not assigned before \<open>initialize\<close>
  (\<open>None\<close> is \<open>undefined\<close>).
\<close>

definition constructor :: scanner where
  "constructor =
     \<lparr>projectModulesList = [], thirdPartyDependencies = DependencyArray [],
      componentsDataset = [],
      designSystemModules = None, heap = [],
      codebaseComponents = \<lparr>items = [], named = []\<rparr>,
      projectComponents = [], console = []\<rparr>"

section \<open>Build graph: \<open>getDebugYaml\<close>\<close>

text \<open>
  \<open>data.commands\<close> of the parsed \<open>.build/debug.yaml\<close>: an association list from
  command keys to commands; an absent \<open>inputs\<close> is the empty list. \<open>first_input\<close> is
  \<open>data.commands[modKey].inputs[0]\<close> (the source calls the key \<open>mod\<close>), \<open>None\<close> where reading it gives \<open>undefined\<close> and the
  following \<open>.includes\<close> throws.
\<close>

record llbuild_command =
  inputs :: "string list"

type_synonym commands = "(string \<times> llbuild_command) list"

definition first_input :: "commands \<Rightarrow> string \<Rightarrow> string option" where
  "first_input cmds key =
     (case map_of cmds key of
        None \<Rightarrow> None
      | Some cmd \<Rightarrow> (case inputs cmd of [] \<Rightarrow> None | p # _ \<Rightarrow> Some p))"

text \<open>The callback of \<open>.filter\<close> and the object built by the callback of \<open>.map\<close>.\<close>

definition keep_module :: "string \<Rightarrow> bool" where
  "keep_module firstInput =
     (str_includes firstInput ''.build/checkouts'' \<or> \<not> str_includes firstInput ''.build'')"

definition module_of :: "string \<Rightarrow> string \<Rightarrow> project_module" where
  "module_of modKey origPath =
     (let path =
        (if str_includes origPath ''.build/checkouts''
         then (let parentPath = hd (split origPath ''.build/checkouts'');
                   splittedLibrary = pop (split (split origPath ''.build/checkouts'' ! 1) ''/'');
                   library = join splittedLibrary ''/''
               in parentPath @ ''.build/checkouts'' @ library)
         else (let splittedPath = pop (split origPath ''/'')
               in join splittedPath ''/''))
      in \<lparr>mod_name = substring modKey 2 (lastIndexOf modKey (CHR ''-'')),
          mod_path = path,
          originalPath = origPath,
          mod_isThirdParty = str_includes origPath ''.build/checkouts''\<rparr>)"

text \<open>
  \<open>getDebugYaml\<close>: \<open>None\<close> for the argument is a manifest that cannot be read or parsed or
  has no \<open>commands\<close>; the result \<open>None\<close> is the rejected promise. The \<open>.filter\<close> runs over
  all module keys before the first push, so an exception leaves the list untouched.
\<close>

definition getDebugYaml :: "commands option \<Rightarrow> scanner \<Rightarrow> scanner option" where
  "getDebugYaml data st =
     (case data of
        None \<Rightarrow> None
      | Some cmds \<Rightarrow>
          (case map_of cmds ''PackageStructure'' of
             None \<Rightarrow> None
           | Some packageStructure \<Rightarrow>
               (let moduleKeys = filter (\<lambda>key. startsWith key ''C.'') (map fst cmds)
                in case those (map (\<lambda>modKey. map_option (Pair modKey) (first_input cmds modKey)) moduleKeys) of
                     None \<Rightarrow> None
                   | Some keyed \<Rightarrow>
                       Some (st\<lparr>projectModulesList := projectModulesList st @
                          map (\<lambda>(modKey, p). module_of modKey p)
                            (filter (\<lambda>(modKey, p). keep_module p) keyed)\<rparr>))))"

text \<open>
  \<open>initialize\<close>: the outcome of the external build (\<open>initiateBuild\<close>) is the parameter
  \<open>built\<close>; a rejection of either promise is caught and the scanner goes on with what it
  has. (A build that neither reports progress nor fails leaves \<open>initialize\<close> pending;
  such a run reaches no later state.) \<open>loadDataset\<close> replaces the dataset by the parsed
  file, when there is one.
\<close>

definition initialize :: "string list \<Rightarrow> bool \<Rightarrow> commands option \<Rightarrow> scanner \<Rightarrow> scanner" where
  "initialize dsm built data st =
     (let st1 = st\<lparr>designSystemModules := Some dsm\<rparr>
      in if \<not> built then st1
         else (case getDebugYaml data st1 of None \<Rightarrow> st1 | Some st2 \<Rightarrow> st2))"

definition loadDataset :: "dataset option \<Rightarrow> scanner \<Rightarrow> scanner" where
  "loadDataset file st =
     (case file of None \<Rightarrow> st | Some ds \<Rightarrow> st\<lparr>componentsDataset := ds\<rparr>)"

section \<open>Structural extraction\<close>

text \<open>
  \<open>executeCommand\<close>: the output of the command, or the trimmed message of the error that
  \<open>execSync\<close> threw.
\<close>

definition executeCommand :: "env \<Rightarrow> string \<Rightarrow> string" where
  "executeCommand e command =
     (case execSync e command of Inr output \<Rightarrow> output | Inl message \<Rightarrow> trim message)"

text \<open>
  \<open>getStructureFromFile\<close>: \<open>Inl\<close> is the message of the \<open>Error\<close> it throws when
  \<open>JSON.parse\<close> throws.
\<close>

definition structure_command :: "string \<Rightarrow> string" where
  "structure_command filePath =
     ''sourcekitten structure --file '' @ [CHR 0x22] @ filePath @ [CHR 0x22]"

definition getStructureFromFile :: "env \<Rightarrow> string \<Rightarrow> string + node" where
  "getStructureFromFile e filePath =
     (let command = structure_command filePath;
          stdout = executeCommand e command
      in case JSON_parse e stdout of
           Inl message \<Rightarrow> Inl (''Error extracting public components: '' @ message)
         | Inr jsonData \<Rightarrow> Inr jsonData)"

definition valid_kind :: "string \<Rightarrow> bool" where
  "valid_kind kind =
     (startsWith kind ''source.lang.swift.decl''
      \<or> startsWith kind ''source.lang.swift.expr''
      \<or> startsWith kind ''source.lang.swift.structure'')"

text \<open>
  \<open>extractComponentsFromStructure\<close>: \<open>substructure_loop\<close> is its \<open>for\<close> loop. A component
  without \<open>key.kind\<close> makes \<open>.startsWith\<close> throw; the \<open>catch\<close> of the call that runs
  the loop then returns what that loop has collected so far.
\<close>

fun extractComponentsFromStructure :: "node \<Rightarrow> node list"
  and substructure_loop :: "node list \<Rightarrow> node list" where
  "extractComponentsFromStructure (Node kind name off substructure) = substructure_loop substructure"
| "substructure_loop [] = []"
| "substructure_loop (component # rest) =
     (case key_kind component of
        None \<Rightarrow> []
      | Some kind \<Rightarrow>
          (if valid_kind kind then [component] else [])
          @ extractComponentsFromStructure component
          @ substructure_loop rest)"

section \<open>Metadata aggregation: \<open>extractMetadata\<close>\<close>

definition getDesignSystems :: "string list \<Rightarrow> string \<Rightarrow> string list" where
  "getDesignSystems dsm modName =
     (let lowercaseModuleName = toLowerCase modName
      in filter (\<lambda>designSystemModule. toLowerCase designSystemModule = lowercaseModuleName) dsm)"

text \<open>
  \<open>isThirdParty\<close> of \<open>SwiftScanner.js\<close> looks the module up by name; the older copy
  compares the name with the names of \<open>thirdPartyDependencies\<close>, ignoring case, in a
  \<open>for ... of\<close> loop: over a plain object that loop throws a \<open>TypeError\<close> (\<open>None\<close>).
\<close>

definition isThirdParty :: "scanner \<Rightarrow> string \<Rightarrow> bool" where
  "isThirdParty st modName =
     (case find (\<lambda>m. mod_name m = modName) (projectModulesList st) of
        None \<Rightarrow> False
      | Some m \<Rightarrow> mod_isThirdParty m)"

definition isThirdParty_legacy :: "scanner \<Rightarrow> string \<Rightarrow> bool option" where
  "isThirdParty_legacy st modName =
     (case thirdPartyDependencies st of
        DependencyArray names \<Rightarrow>
          Some (list_ex (\<lambda>dependency. toLowerCase dependency = toLowerCase modName) names)
      | DependencyObject byName \<Rightarrow> None)"

text \<open>
  \<open>this.codebaseComponents[metadataId]\<close>. On an array a key that is a canonical decimal
  index below \<open>2^32 - 1\<close> reads an element, any other key reads a named property. (The
  key \<open>length\<close> and the inherited method names are not modelled: they contain no \<open>/\<close>,
  and every \<open>metadataId\<close> does.) On a plain object every key reads a named property.
\<close>

definition is_digit :: "char \<Rightarrow> bool" where
  "is_digit c = (48 \<le> (of_char c :: nat) \<and> (of_char c :: nat) \<le> 57)"

definition array_index :: "string \<Rightarrow> nat option" where
  "array_index key =
     (if key \<noteq> [] \<and> list_all is_digit key \<and> (key = ''0'' \<or> hd key \<noteq> CHR ''0'')
      then (let n = fold (\<lambda>c n. 10 * n + ((of_char c :: nat) - 48)) key 0
            in if n < 4294967295 then Some n else None)
      else None)"

definition array_get :: "codebase_components \<Rightarrow> string \<Rightarrow> nat option" where
  "array_get cc key =
     (case array_index key of
        Some i \<Rightarrow> (if i < length (items cc) then Some (items cc ! i) else None)
      | None \<Rightarrow> map_of (named cc) key)"

definition object_get :: "codebase_components \<Rightarrow> string \<Rightarrow> nat option" where
  "object_get cc key = map_of (named cc) key"

text \<open>
  Saving the metadata: \<open>this.codebaseComponents.push(metadata)\<close> in \<open>SwiftScanner.js\<close>,
  \<open>this.codebaseComponents[metadataId] = metadata\<close> in the older copy (which then also
  writes the JSON files; the files are not part of the state).
\<close>

definition array_push :: "string \<Rightarrow> nat \<Rightarrow> codebase_components \<Rightarrow> codebase_components" where
  "array_push metadataId r cc = cc\<lparr>items := items cc @ [r]\<rparr>"

definition object_set :: "string \<Rightarrow> nat \<Rightarrow> codebase_components \<Rightarrow> codebase_components" where
  "object_set metadataId r cc = cc\<lparr>named := AList.update metadataId r (named cc)\<rparr>"

text \<open>A template literal prints an absent value as \<open>undefined\<close>.\<close>

definition template :: "string option \<Rightarrow> string" where
  "template v = (case v of None \<Rightarrow> ''undefined'' | Some s \<Rightarrow> s)"

definition metadataId_of :: "catalog_entry \<Rightarrow> string option \<Rightarrow> string \<Rightarrow> string" where
  "metadataId_of existingComponent componentName componentType =
     moduleName existingComponent @ ''/'' @ template componentName @ ''/'' @ componentType"

definition new_metadata ::
  "string list \<Rightarrow> bool \<Rightarrow> catalog_entry \<Rightarrow> string option \<Rightarrow> string \<Rightarrow> metadata" where
  "new_metadata dsm isThird existingComponent componentName componentType =
     \<lparr>meta_id = metadataId_of existingComponent componentName componentType,
      meta_name = componentName,
      tags = [],
      overriddenComponents = [],
      designSystems = getDesignSystems dsm (moduleName existingComponent),
      designDocs = docBrief existingComponent,
      isSelfDeclared = (\<not> isThird),
      filewiseOccurences = [],
      totalOccurences = 0,
      stories = [],
      filewiseLocation = [],
      meta_type = componentType,
      libraryName = moduleName existingComponent,
      thirdParty = isThird\<rparr>"

text \<open>
  \<open>metadata.totalOccurences++\<close> and
  \<open>metadata.filewiseOccurences[filePath] = (metadata.filewiseOccurences[filePath] || 0) + 1\<close>.
\<close>

definition count_occurrence :: "string \<Rightarrow> metadata \<Rightarrow> metadata" where
  "count_occurrence filePath m =
     m\<lparr>totalOccurences := totalOccurences m + 1,
       filewiseOccurences :=
         AList.update filePath
           ((case map_of (filewiseOccurences m) filePath of None \<Rightarrow> 0 | Some n \<Rightarrow> n) + 1)
           (filewiseOccurences m)\<rparr>"

text \<open>\<open>metadata.filewiseLocation[filePath] = [{ line, column, offset }]\<close>.\<close>

definition set_location :: "string \<Rightarrow> location \<Rightarrow> metadata \<Rightarrow> metadata" where
  "set_location filePath loc m =
     m\<lparr>filewiseLocation := AList.update filePath [loc] (filewiseLocation m)\<rparr>"

text \<open>A reference read from the store denotes an object only if it is in the heap.\<close>

definition existing_object :: "scanner \<Rightarrow> nat option \<Rightarrow> nat option" where
  "existing_object st found =
     (case found of None \<Rightarrow> None | Some r \<Rightarrow> if r < length (heap st) then Some r else None)"

text \<open>
  The body of \<open>extractMetadata\<close>, which the two copies of the file share but for the
  lookup (\<open>get\<close>), the save (\<open>put\<close>) and \<open>isThirdParty\<close> (\<open>third\<close>). Every exception
  inside is caught and \<open>{}\<close> returned: \<open>.replace\<close> on an absent kind,
  \<open>getDesignSystems\<close> iterating an unassigned \<open>designSystemModules\<close>, the older
  \<open>isThirdParty\<close> iterating a plain object (\<open>third\<close> gives \<open>None\<close>), and destructuring
  the \<open>null\<close> of a failed \<open>findLineAndColumn\<close>. An object found in the store has been
  counted in place by then; a new object is reachable only once it has been saved, so it
  is allocated at that point.
\<close>

definition aggregate ::
  "(codebase_components \<Rightarrow> string \<Rightarrow> nat option) \<Rightarrow>
   (string \<Rightarrow> nat \<Rightarrow> codebase_components \<Rightarrow> codebase_components) \<Rightarrow>
   (scanner \<Rightarrow> string \<Rightarrow> bool option) \<Rightarrow>
   env \<Rightarrow> node \<Rightarrow> catalog_entry \<Rightarrow> string \<Rightarrow> string \<Rightarrow> scanner \<Rightarrow> extracted \<times> scanner" where
  "aggregate get put third e component existingComponent fileContent filePath st =
     (case key_kind component of
        None \<Rightarrow> (EmptyObject, st)
      | Some kind \<Rightarrow>
          (let componentName = key_name component;
               componentType = replace kind ''source.lang.swift.'' [];
               metadataId = metadataId_of existingComponent componentName componentType
           in case existing_object st (get (codebaseComponents st) metadataId) of
                Some r \<Rightarrow>
                  (let st1 = st\<lparr>heap := (heap st)[r := count_occurrence filePath (heap st ! r)]\<rparr>
                   in case findLineAndColumn (readFile e) filePath (key_offset component) of
                        None \<Rightarrow> (EmptyObject, st1)
                      | Some (ln, col) \<Rightarrow>
                          (Ref r,
                           st1\<lparr>heap := (heap st1)[r := set_location filePath
                                   \<lparr>line = ln, column = col, offset = key_offset component\<rparr>
                                   (heap st1 ! r)],
                               codebaseComponents := put metadataId r (codebaseComponents st1)\<rparr>))
              | None \<Rightarrow>
                  (case designSystemModules st of
                     None \<Rightarrow> (EmptyObject, st)
                   | Some dsm \<Rightarrow>
                       (case third st (moduleName existingComponent) of
                          None \<Rightarrow> (EmptyObject, st)
                        | Some isThird \<Rightarrow>
                            (let metadata = count_occurrence filePath
                                   (new_metadata dsm isThird
                                      existingComponent componentName componentType)
                             in case findLineAndColumn (readFile e) filePath
                                       (key_offset component) of
                                  None \<Rightarrow> (EmptyObject, st)
                                | Some (ln, col) \<Rightarrow>
                                    (let r = length (heap st)
                                     in (Ref r,
                                         st\<lparr>heap := heap st @ [set_location filePath
                                               \<lparr>line = ln, column = col,
                                                offset = key_offset component\<rparr>
                                               metadata],
                                            codebaseComponents :=
                                              put metadataId r (codebaseComponents st)\<rparr>)))))))"

definition extractMetadata ::
  "env \<Rightarrow> node \<Rightarrow> catalog_entry \<Rightarrow> string \<Rightarrow> string \<Rightarrow> scanner \<Rightarrow> extracted \<times> scanner" where
  "extractMetadata =
     aggregate array_get array_push (\<lambda>st modName. Some (isThirdParty st modName))"

definition extractMetadata_legacy ::
  "env \<Rightarrow> node \<Rightarrow> catalog_entry \<Rightarrow> string \<Rightarrow> string \<Rightarrow> scanner \<Rightarrow> extracted \<times> scanner" where
  "extractMetadata_legacy = aggregate object_get object_set isThirdParty_legacy"

section \<open>Component matching: \<open>processComponents\<close>\<close>

text \<open>\<open>name.split('(')[0].trim()\<close>.\<close>

definition base_name :: "string \<Rightarrow> string" where
  "base_name n = trim (hd (split n ''(''))"

record processed_component =
  baseName :: string
  pc_kind :: string
  isFunc :: bool
  fullComponent :: catalog_entry

text \<open>
  The pre-processing loop: entries with an empty name are left out, and the \<open>Map\<close> keeps
  the order of the dataset's keys.
\<close>

definition preprocess :: "catalog_entry list \<Rightarrow> processed_component list" where
  "preprocess moduleComponents =
     map (\<lambda>moduleComponent.
            \<lparr>baseName = base_name (entry_name moduleComponent),
             pc_kind = entry_kind moduleComponent,
             isFunc = str_includes (entry_kind moduleComponent) ''function'',
             fullComponent = moduleComponent\<rparr>)
         (filter (\<lambda>moduleComponent. entry_name moduleComponent \<noteq> []) moduleComponents)"

definition moduleComponentsMap :: "dataset \<Rightarrow> (string \<times> processed_component list) list" where
  "moduleComponentsMap ds = map (\<lambda>(modName, moduleComponents). (modName, preprocess moduleComponents)) ds"

text \<open>
  \<open>(isFunc && componentKind.includes('expr')) || kind === componentKind\<close>: \<open>None\<close> when
  \<open>.includes\<close> is called on an absent \<open>componentKind\<close> and throws.
\<close>

definition kind_test :: "bool \<Rightarrow> string \<Rightarrow> string option \<Rightarrow> bool option" where
  "kind_test func kind componentKind =
     (if func
      then (case componentKind of
              None \<Rightarrow> None
            | Some k \<Rightarrow> Some (str_includes k ''expr'' \<or> kind = k))
      else Some (componentKind = Some kind))"

text \<open>
  A loop either completes or is left by an exception; the state reached so far stays.
\<close>

datatype completion = Normal | Threw

text \<open>
  The callback given to \<open>moduleComponentsMap.forEach\<close>: its \<open>for\<close> loop over the
  entries of one module. The \<open>return\<close> after a match leaves this callback, that is this
  module. The result of \<open>extractMetadata\<close> is an object in every case, so it is pushed.
\<close>

fun module_callback ::
  "env \<Rightarrow> node \<Rightarrow> string \<Rightarrow> string \<Rightarrow> string \<Rightarrow> processed_component list \<Rightarrow> scanner
   \<Rightarrow> completion \<times> scanner" where
  "module_callback e component componentName fileContent filePath [] st = (Normal, st)"
| "module_callback e component componentName fileContent filePath (pc # rest) st =
     (if baseName pc = componentName
      then (case kind_test (isFunc pc) (pc_kind pc) (key_kind component) of
              None \<Rightarrow> (Threw, st)
            | Some True \<Rightarrow>
                (let (metadata, st') =
                       extractMetadata e component (fullComponent pc) fileContent filePath st
                 in (Normal, st'\<lparr>projectComponents := projectComponents st' @ [metadata]\<rparr>))
            | Some False \<Rightarrow>
                module_callback e component componentName fileContent filePath rest st)
      else module_callback e component componentName fileContent filePath rest st)"

text \<open>\<open>moduleComponentsMap.forEach\<close>: every module is visited, unless a callback throws.\<close>

fun modules_forEach ::
  "env \<Rightarrow> node \<Rightarrow> string \<Rightarrow> string \<Rightarrow> string \<Rightarrow> (string \<times> processed_component list) list
   \<Rightarrow> scanner \<Rightarrow> completion \<times> scanner" where
  "modules_forEach e component componentName fileContent filePath [] st = (Normal, st)"
| "modules_forEach e component componentName fileContent filePath ((modName, pcs) # rest) st =
     (case module_callback e component componentName fileContent filePath pcs st of
        (Threw, st') \<Rightarrow> (Threw, st')
      | (Normal, st') \<Rightarrow> modules_forEach e component componentName fileContent filePath rest st')"

text \<open>
  \<open>component['key.name'] && component['key.name'].split('(')[0].trim()\<close>: the empty
  string stands for every falsy value, since \<open>if (!componentName) return\<close> treats them
  alike.
\<close>

definition componentName_of :: "node \<Rightarrow> string" where
  "componentName_of component =
     (case key_name component of
        None \<Rightarrow> []
      | Some n \<Rightarrow> if n = [] then [] else base_name n)"

text \<open>\<open>components.forEach\<close>, the main loop.\<close>

fun components_forEach ::
  "env \<Rightarrow> (string \<times> processed_component list) list \<Rightarrow> string \<Rightarrow> string \<Rightarrow> node list
   \<Rightarrow> scanner \<Rightarrow> completion \<times> scanner" where
  "components_forEach e mcm fileContent filePath [] st = (Normal, st)"
| "components_forEach e mcm fileContent filePath (component # rest) st =
     (let componentName = componentName_of component
      in if componentName = [] then components_forEach e mcm fileContent filePath rest st
         else (case modules_forEach e component componentName fileContent filePath mcm st of
                 (Threw, st') \<Rightarrow> (Threw, st')
               | (Normal, st') \<Rightarrow> components_forEach e mcm fileContent filePath rest st'))"

definition processComponents ::
  "env \<Rightarrow> node list \<Rightarrow> string \<Rightarrow> string \<Rightarrow> scanner \<Rightarrow> completion \<times> scanner" where
  "processComponents e components filePath fileContent st =
     components_forEach e (moduleComponentsMap (componentsDataset st)) fileContent filePath
       components st"

subsection \<open>The older copy of \<open>processComponents\<close>\<close>

text \<open>
  The inner \<open>for\<close> loop of the older copy: the first entry of one module that matches
  (\<open>break\<close>), \<open>Some None\<close> if there is none, \<open>None\<close> if \<open>.includes\<close> throws. Both names
  must be non-empty; the base names are not tested for emptiness.
\<close>

fun find_existing :: "string option \<Rightarrow> string option \<Rightarrow> catalog_entry list \<Rightarrow> catalog_entry option option" where
  "find_existing componentName componentKind [] = Some None"
| "find_existing componentName componentKind (moduleComponent # rest) =
     (case componentName of
        None \<Rightarrow> find_existing componentName componentKind rest
      | Some cn \<Rightarrow>
          (if entry_name moduleComponent \<noteq> [] \<and> cn \<noteq> []
           then (if base_name (entry_name moduleComponent) = base_name cn
                 then (case kind_test (str_includes (entry_kind moduleComponent) ''function'')
                              (entry_kind moduleComponent) componentKind of
                         None \<Rightarrow> None
                       | Some True \<Rightarrow> Some (Some moduleComponent)
                       | Some False \<Rightarrow> find_existing componentName componentKind rest)
                 else find_existing componentName componentKind rest)
           else find_existing componentName componentKind rest))"

text \<open>
  The loop over the modules of the older copy: after the first module with a match the
  metadata is extracted and the loop is left by \<open>break\<close>.
\<close>

fun modules_loop_legacy ::
  "env \<Rightarrow> node \<Rightarrow> string \<Rightarrow> string \<Rightarrow> dataset \<Rightarrow> scanner \<Rightarrow> completion \<times> scanner" where
  "modules_loop_legacy e component fileContent filePath [] st = (Normal, st)"
| "modules_loop_legacy e component fileContent filePath ((modName, moduleComponents) # rest) st =
     (case find_existing (key_name component) (key_kind component) moduleComponents of
        None \<Rightarrow> (Threw, st)
      | Some None \<Rightarrow> modules_loop_legacy e component fileContent filePath rest st
      | Some (Some existingComponent) \<Rightarrow>
          (let (metadata, st') =
                 extractMetadata_legacy e component existingComponent fileContent filePath st
           in (Normal, st'\<lparr>projectComponents := projectComponents st' @ [metadata]\<rparr>)))"

fun components_forEach_legacy ::
  "env \<Rightarrow> string \<Rightarrow> string \<Rightarrow> node list \<Rightarrow> scanner \<Rightarrow> completion \<times> scanner" where
  "components_forEach_legacy e fileContent filePath [] st = (Normal, st)"
| "components_forEach_legacy e fileContent filePath (component # rest) st =
     (case modules_loop_legacy e component fileContent filePath (componentsDataset st) st of
        (Threw, st') \<Rightarrow> (Threw, st')
      | (Normal, st') \<Rightarrow> components_forEach_legacy e fileContent filePath rest st')"

definition processComponents_legacy ::
  "env \<Rightarrow> node list \<Rightarrow> string \<Rightarrow> string \<Rightarrow> scanner \<Rightarrow> completion \<times> scanner" where
  "processComponents_legacy e components filePath fileContent st =
     components_forEach_legacy e fileContent filePath components st"

section \<open>The per-file pipeline and the walker\<close>

text \<open>
  \<open>extractComponents\<close> catches whatever \<open>getStructureFromFile\<close> or \<open>processComponents\<close>
  throws; what has been aggregated before the exception stays. \<open>process\<close> starts
  \<open>extractComponents\<close> without awaiting it; its continuations are microtasks that run
  before the walker's next file-system call completes, so the calls happen one file after
  the other.
\<close>

definition extractComponents :: "env \<Rightarrow> string \<Rightarrow> string \<Rightarrow> scanner \<Rightarrow> scanner" where
  "extractComponents e filePath fileContent st =
     (case getStructureFromFile e filePath of
        Inl message \<Rightarrow> st
      | Inr fileStructure \<Rightarrow>
          snd (processComponents e (extractComponentsFromStructure fileStructure)
                 filePath fileContent st))"

definition process :: "env \<Rightarrow> string \<Rightarrow> string \<Rightarrow> scanner \<Rightarrow> scanner" where
  "process e fileContent filePath st = extractComponents e filePath fileContent st"

definition extractComponentsFromFile :: "env \<Rightarrow> string \<Rightarrow> scanner \<Rightarrow> scanner" where
  "extractComponentsFromFile e filePath st =
     (case readFile e filePath of
        Inl message \<Rightarrow> st
      | Inr fileContent \<Rightarrow> process e fileContent filePath st)"

definition validPath :: "scanner \<Rightarrow> string \<Rightarrow> bool" where
  "validPath st directoryPath =
     list_ex (\<lambda>m. str_includes (mod_path m) directoryPath) (projectModulesList st)"

text \<open>
  \<open>getModuleName\<close>: the name of the first module whose path occurs in the given path
  (\<open>path.resolve\<close> leaves an absolute, normalised path as it is). The older copy of
  \<open>scanFilesRecursively\<close> accepts a directory when \<open>getModuleName\<close> gives a non-empty
  name for it.
\<close>

definition getModuleName :: "scanner \<Rightarrow> string \<Rightarrow> string option" where
  "getModuleName st filePath =
     map_option mod_name
       (find (\<lambda>m. str_includes filePath (mod_path m)) (projectModulesList st))"

definition validPath_legacy :: "scanner \<Rightarrow> string \<Rightarrow> bool" where
  "validPath_legacy st filePath =
     (case getModuleName st filePath of None \<Rightarrow> False | Some modName \<Rightarrow> modName \<noteq> [])"

text \<open>
  The part of the file system that a walk visits: what \<open>fs.stat\<close> and \<open>fs.readdir\<close>
  answer. \<open>Missing\<close> is a path whose \<open>stat\<close> throws, \<open>Unreadable\<close> a directory whose
  \<open>readdir\<close> throws, both with the error's message.
\<close>

datatype fs_node =
  Missing string
| File
| Unreadable string
| Dir "(string \<times> fs_node) list"

text \<open>
  \<open>path.join(filePath, file)\<close> for a normalised directory path and an entry name: one
  separator between them.
\<close>

definition path_join :: "string \<Rightarrow> string \<Rightarrow> string" where
  "path_join filePath file =
     (if endsWith filePath ''/'' then filePath @ file else filePath @ ''/'' @ file)"

text \<open>
  \<open>console\<close> holds the lines that \<open>scanFilesRecursively\<close> itself prints, in order; what
  the other methods print is not recorded.
\<close>

definition console_log :: "string \<Rightarrow> scanner \<Rightarrow> scanner" where
  "console_log msg st = st\<lparr>console := console st @ [msg]\<rparr>"

definition report_invalid_path :: "scanner \<Rightarrow> scanner" where
  "report_invalid_path st =
     st\<lparr>console := console st @
        [''Directory path does not include any module path. Please provide a valid scan path.'',
         ''Available module paths:'']
        @ map (\<lambda>m. '' - '' @ mod_path m) (projectModulesList st)\<rparr>"

fun scanFilesRecursively ::
  "env \<Rightarrow> string list \<Rightarrow> string \<Rightarrow> fs_node \<Rightarrow> scanner \<Rightarrow> scanner"
  and scan_files ::
  "env \<Rightarrow> string list \<Rightarrow> string \<Rightarrow> (string \<times> fs_node) list \<Rightarrow> scanner \<Rightarrow> scanner" where
  "scanFilesRecursively e excludedFolders filePath (Missing message) st =
     console_log (''Error scanning directory: '' @ message) st"
| "scanFilesRecursively e excludedFolders filePath File st =
     (if endsWith filePath ''.swift'' then extractComponentsFromFile e filePath st else st)"
| "scanFilesRecursively e excludedFolders filePath (Unreadable message) st =
     (if \<not> validPath st filePath then report_invalid_path st
      else console_log (''Error scanning directory: '' @ message) st)"
| "scanFilesRecursively e excludedFolders filePath (Dir files) st =
     (if \<not> validPath st filePath then report_invalid_path st
      else scan_files e excludedFolders filePath files st)"
| "scan_files e excludedFolders filePath [] st = st"
| "scan_files e excludedFolders filePath ((file, child) # rest) st =
     (if file \<in> set excludedFolders then scan_files e excludedFolders filePath rest st
      else scan_files e excludedFolders filePath rest
             (scanFilesRecursively e excludedFolders (path_join filePath file) child st))"

text \<open>
  The loop of the \<open>scan\<close> command in \<open>ScannerCLI.js\<close> over the (resolved) paths given on
  the command line, each with what the file system holds there.
\<close>

fun scan_command :: "env \<Rightarrow> string list \<Rightarrow> (string \<times> fs_node) list \<Rightarrow> scanner \<Rightarrow> scanner" where
  "scan_command e excludedFolders [] st = st"
| "scan_command e excludedFolders ((absoluteFilePath, nd) # rest) st =
     scan_command e excludedFolders rest
       (scanFilesRecursively e excludedFolders absoluteFilePath nd st)"

section \<open>Vocabulary of the specification\<close>

text \<open>
  The definitions of this section follow the words of the specification; the properties
  below compare them with the definitions taken from the source.
\<close>

text \<open>
  The nodes below a node, in pre-order: each node before its own descendants, siblings
  from left to right.
\<close>

fun descendants :: "node \<Rightarrow> node list"
  and descendants_list :: "node list \<Rightarrow> node list" where
  "descendants (Node kind name off substructure) = descendants_list substructure"
| "descendants_list [] = []"
| "descendants_list (c # cs) = c # descendants c @ descendants_list cs"

text \<open>A node is retained if its kind tag starts with one of the three prefixes.\<close>

definition retained :: "node \<Rightarrow> bool" where
  "retained c = (case key_kind c of None \<Rightarrow> False | Some kind \<Rightarrow> valid_kind kind)"

text \<open>The structure oracle's interface: every node carries a kind tag.\<close>

definition tagged :: "node \<Rightarrow> bool" where
  "tagged c = (key_kind c \<noteq> None)"

text \<open>
  \<open>totalOccurences\<close> is the sum of the values of \<open>filewiseOccurences\<close> (an object, so
  with one entry per file).
\<close>

definition occurrences_consistent :: "metadata \<Rightarrow> bool" where
  "occurrences_consistent m =
     (distinct (map fst (filewiseOccurences m))
      \<and> totalOccurences m = sum_list (map snd (filewiseOccurences m)))"

text \<open>
  Directories as a hierarchy: a path lies under another when the other's segments are a
  prefix of its own, and contains it in the converse case.
\<close>

definition path_segments :: "string \<Rightarrow> string list" where
  "path_segments p = filter (\<lambda>seg. seg \<noteq> []) (split p ''/'')"

definition lies_under :: "string \<Rightarrow> string \<Rightarrow> bool" where
  "lies_under directoryPath modulePath = prefix (path_segments modulePath) (path_segments directoryPath)"

definition contains_path :: "string \<Rightarrow> string \<Rightarrow> bool" where
  "contains_path directoryPath modulePath = prefix (path_segments directoryPath) (path_segments modulePath)"

text \<open>
  The build directory of a package is its directory \<open>.build\<close>, the dependency-checkout
  root the directory \<open>checkouts\<close> in it. The manifest names no package, so a file lies
  under a build directory when one of the directories above it is named \<open>.build\<close>, and
  under a dependency-checkout root when \<open>checkouts\<close> follows at once.
\<close>

definition under_build_directory :: "string \<Rightarrow> bool" where
  "under_build_directory p = (''.build'' \<in> set (butlast (path_segments p)))"

definition under_checkout_root :: "string \<Rightarrow> bool" where
  "under_checkout_root p = sublist [''.build'', ''checkouts''] (butlast (path_segments p))"

text \<open>
  The target key without the leading \<open>C.\<close> and without the trailing disambiguator, which
  starts at the last \<open>-\<close>.
\<close>

definition stripped_key :: "string \<Rightarrow> string" where
  "stripped_key key = drop 2 (rev (tl (dropWhile (\<lambda>c. c \<noteq> CHR ''-'') (rev key))))"

text \<open>
  The manifest as the specification describes it: a mapping of commands (so with distinct
  keys) in which every \<open>C.<module>-<disambiguator>\<close> entry has a first input.
  \<open>getDebugYaml\<close> reads \<open>data.commands.PackageStructure.inputs\<close> before anything else;
  \<open>well_formed_manifest\<close> adds that this command is there.
\<close>

definition manifest_as_specified :: "commands \<Rightarrow> bool" where
  "manifest_as_specified cmds =
     (distinct (map fst cmds)
      \<and> list_all (\<lambda>(key, cmd). startsWith key ''C.'' \<longrightarrow> inputs cmd \<noteq> [] \<and> CHR ''-'' \<in> set key) cmds)"

definition well_formed_manifest :: "commands \<Rightarrow> bool" where
  "well_formed_manifest cmds =
     (distinct (map fst cmds)
      \<and> map_of cmds ''PackageStructure'' \<noteq> None
      \<and> list_all (\<lambda>(key, cmd). startsWith key ''C.'' \<longrightarrow> inputs cmd \<noteq> [] \<and> CHR ''-'' \<in> set key) cmds)"

text \<open>
  The module topology as name, first input and third-party flag of each module, in the
  order of the manifest. \<open>stated_topology_of\<close> selects and flags the targets by where the
  first input lies; \<open>topology_of\<close> selects and flags them by the text of the first input:
  whether it contains \<open>.build/checkouts\<close>, and whether it contains \<open>.build\<close>.
\<close>

definition stated_topology_of :: "commands \<Rightarrow> (string \<times> string \<times> bool) list" where
  "stated_topology_of cmds =
     map (\<lambda>(key, cmd). (stripped_key key, hd (inputs cmd), under_checkout_root (hd (inputs cmd))))
       (filter (\<lambda>(key, cmd). startsWith key ''C.''
                  \<and> (under_checkout_root (hd (inputs cmd)) \<or> \<not> under_build_directory (hd (inputs cmd))))
          cmds)"

definition topology_of :: "commands \<Rightarrow> (string \<times> string \<times> bool) list" where
  "topology_of cmds =
     map (\<lambda>(key, cmd). (stripped_key key, hd (inputs cmd),
                          str_includes (hd (inputs cmd)) ''.build/checkouts''))
       (filter (\<lambda>(key, cmd). startsWith key ''C.''
                  \<and> (str_includes (hd (inputs cmd)) ''.build/checkouts''
                      \<or> \<not> str_includes (hd (inputs cmd)) ''.build''))
          cmds)"

definition topology :: "scanner \<Rightarrow> (string \<times> string \<times> bool) list" where
  "topology st = map (\<lambda>m. (mod_name m, originalPath m, mod_isThirdParty m)) (projectModulesList st)"

text \<open>
  The matching rule. \<open>match_declared\<close> is what the matcher does with one catalog entry
  and one candidate: it declares a match when \<open>processComponents\<close> adds an element to
  \<open>projectComponents\<close>. \<open>stated_match_rule\<close> is the rule with base names that are the
  substrings before the first \<open>(\<close>; \<open>match_rule\<close> is the rule with the base names that
  \<open>base_name\<close> computes, which must not be empty.
\<close>

definition match_declared ::
  "env \<Rightarrow> scanner \<Rightarrow> string \<Rightarrow> string \<Rightarrow> catalog_entry \<Rightarrow> node \<Rightarrow> bool" where
  "match_declared e st filePath fileContent entry component =
     (length (projectComponents (snd (processComponents e [component] filePath fileContent
         (st\<lparr>componentsDataset := [(moduleName entry, [entry])]\<rparr>))))
      = Suc (length (projectComponents st)))"

definition before_paren :: "string \<Rightarrow> string" where
  "before_paren n = takeWhile (\<lambda>c. c \<noteq> CHR ''('') n"

definition kinds_compatible :: "catalog_entry \<Rightarrow> node \<Rightarrow> bool" where
  "kinds_compatible entry component =
     (case key_kind component of
        None \<Rightarrow> False
      | Some kind \<Rightarrow>
          (str_includes (entry_kind entry) ''function'' \<and> str_includes kind ''expr'')
          \<or> entry_kind entry = kind)"

definition stated_match_rule :: "catalog_entry \<Rightarrow> node \<Rightarrow> bool" where
  "stated_match_rule entry component =
     ((case key_name component of
         None \<Rightarrow> False
       | Some n \<Rightarrow> before_paren (entry_name entry) = before_paren n)
      \<and> kinds_compatible entry component)"

definition match_rule :: "catalog_entry \<Rightarrow> node \<Rightarrow> bool" where
  "match_rule entry component =
     ((case key_name component of
         None \<Rightarrow> False
       | Some n \<Rightarrow> entry_name entry \<noteq> [] \<and> base_name n \<noteq> []
                    \<and> base_name (entry_name entry) = base_name n)
      \<and> kinds_compatible entry component)"

definition is_directory :: "fs_node \<Rightarrow> bool" where
  "is_directory nd = (case nd of Dir files \<Rightarrow> True | Unreadable message \<Rightarrow> True | _ \<Rightarrow> False)"

text \<open>Two states that differ in the console only have the same image.\<close>

definition forget_console :: "scanner \<Rightarrow> scanner" where
  "forget_console st = st\<lparr>console := []\<rparr>"

section \<open>Example inputs\<close>

text \<open>A file system in which every file has the given content.\<close>

definition holding :: "string \<Rightarrow> string \<Rightarrow> string + string" where
  "holding fileContent fileName = Inr fileContent"

text \<open>The content \<open>a\<close>, newline, \<open>bb\<close>, newline, \<open>ccc\<close>.\<close>

definition example_content :: string where
  "example_content =
     [CHR ''a'', newline, CHR ''b'', CHR ''b'', newline, CHR ''c'', CHR ''c'', CHR ''c'']"

text \<open>
  A package at \<open>/proj\<close>: the first-party module \<open>AppKit\<close>, the third-party module \<open>Lib\<close>
  in a checkout, a target compiled from a generated file in the build directory, and an
  entry that is not a module.
\<close>

definition example_commands :: commands where
  "example_commands =
     [(''PackageStructure'', \<lparr>inputs = [''/proj/Package.swift'']\<rparr>),
      (''C.AppKit-debug.module'', \<lparr>inputs = [''/proj/Sources/AppKit/main.swift'']\<rparr>),
      (''C.Lib-debug.module'',
         \<lparr>inputs = [''/proj/.build/checkouts/Lib/Sources/Lib/Lib.swift'']\<rparr>),
      (''C.Gen-debug.module'', \<lparr>inputs = [''/proj/.build/debug/Gen.build/gen.swift'']\<rparr>),
      (''<AppKit-debug.module>'', \<lparr>inputs = [''/proj/.build/debug/AppKit.swiftmodule'']\<rparr>)]"

text \<open>
  A package checked out at \<open>/work/my.build\<close> with the first-party module \<open>App\<close>, and
  a manifest that has the module \<open>App\<close> and no \<open>PackageStructure\<close> command.
\<close>

definition mybuild_commands :: commands where
  "mybuild_commands =
     [(''PackageStructure'', \<lparr>inputs = [''/work/my.build/Package.swift'']\<rparr>),
      (''C.App-debug.module'', \<lparr>inputs = [''/work/my.build/Sources/App/main.swift'']\<rparr>)]"

definition bare_commands :: commands where
  "bare_commands =
     [(''C.App-debug.module'', \<lparr>inputs = [''/proj/Sources/App/main.swift'']\<rparr>)]"

text \<open>The catalog: \<open>Lib\<close> exports the function \<open>run()\<close>; a second module does so too.\<close>

definition example_entry :: catalog_entry where
  "example_entry =
     \<lparr>entry_name = ''run()'', entry_kind = ''source.lang.swift.decl.function.free'',
      moduleName = ''Lib'', docBrief = None\<rparr>"

definition example_other_entry :: catalog_entry where
  "example_other_entry =
     \<lparr>entry_name = ''run()'', entry_kind = ''source.lang.swift.decl.function.free'',
      moduleName = ''Other'', docBrief = None\<rparr>"

definition example_dataset :: dataset where
  "example_dataset = [(''Lib'', [example_entry])]"

definition example_two_modules :: dataset where
  "example_two_modules = [(''Lib'', [example_entry]), (''Other'', [example_other_entry])]"

text \<open>
  A file with two lines, each the call \<open>run()\<close>, and its structure: the calls at offsets
  0 and 6; a function declaration whose body holds a call inside an \<open>if\<close> statement,
  followed by a comment mark.
\<close>

definition example_source :: string where
  "example_source = ''run()'' @ [newline] @ ''run()''"

definition example_call :: node where
  "example_call = Node (Some ''source.lang.swift.expr.call'') (Some ''run'') 0 []"

definition example_call_again :: node where
  "example_call_again = Node (Some ''source.lang.swift.expr.call'') (Some ''run'') 6 []"

definition example_structure :: node where
  "example_structure = Node None None 0 [example_call]"

definition example_structure_two :: node where
  "example_structure_two = Node None None 0 [example_call, example_call_again]"

definition example_function :: node where
  "example_function =
     Node (Some ''source.lang.swift.decl.function.free'') (Some ''f()'') 0
       [Node (Some ''source.lang.swift.stmt.if'') None 10 [example_call]]"

definition example_tree :: node where
  "example_tree =
     Node None None 0
       [example_function,
        Node (Some ''source.lang.swift.syntaxtype.comment.mark'') (Some ''MARK'') 30 []]"

text \<open>
  The outside world: every file holds the example source and the structure oracle answers
  with the example structure (with both calls in \<open>example_env_two\<close>); in \<open>failing_env\<close>
  the oracle cannot be run.
\<close>

definition example_env :: env where
  "example_env =
     \<lparr>readFile = holding example_source,
      execSync = (\<lambda>command. Inr ''{}''),
      JSON_parse = (\<lambda>text. Inr example_structure)\<rparr>"

definition example_env_two :: env where
  "example_env_two =
     \<lparr>readFile = holding example_source,
      execSync = (\<lambda>command. Inr ''{}''),
      JSON_parse = (\<lambda>text. Inr example_structure_two)\<rparr>"

definition failing_env :: env where
  "failing_env =
     \<lparr>readFile = holding example_source,
      execSync = (\<lambda>command. Inl '' /bin/sh: sourcekitten: not found ''),
      JSON_parse = (\<lambda>text. Inl ''Unexpected token / in JSON at position 0'')\<rparr>"

text \<open>
  The scanner after \<open>initialize\<close> and \<open>loadDataset\<close>, the same with the catalog of two
  modules, and the state after the older copy has aggregated one match.
\<close>

definition example_scanner :: scanner where
  "example_scanner =
     loadDataset (Some example_dataset) (initialize [] True (Some example_commands) constructor)"

definition example_scanner_two :: scanner where
  "example_scanner_two =
     loadDataset (Some example_two_modules) (initialize [] True (Some example_commands) constructor)"

definition example_counted :: scanner where
  "example_counted =
     snd (extractMetadata_legacy example_env example_call example_entry example_source
            ''/proj/Sources/AppKit/main.swift'' example_scanner)"

text \<open>
  The scanner of the older copy once its \<open>getDebugYaml\<close> has replaced
  \<open>thirdPartyDependencies\<close> by an object.
\<close>

definition example_scanner_object :: scanner where
  "example_scanner_object =
     example_scanner\<lparr>thirdPartyDependencies :=
       DependencyObject [(''Lib'', ''/proj/.build/checkouts/Lib/Sources/Lib/Lib.swift'')]\<rparr>"

text \<open>A scanner whose build failed, so that it knows no module.\<close>

definition example_unbuilt :: scanner where
  "example_unbuilt =
     loadDataset (Some example_dataset) (initialize [] False None constructor)"

text \<open>
  Directories: the module \<open>AppKit\<close>, a directory \<open>App\<close> beside it that belongs to no
  module, and a test directory; each holds one Swift file.
\<close>

definition example_directory :: fs_node where
  "example_directory = Dir [(''main.swift'', File)]"

text \<open>Candidates and entries for the matching rule.\<close>

definition foo_entry :: catalog_entry where
  "foo_entry =
     \<lparr>entry_name = ''foo(bar:)'', entry_kind = ''source.lang.swift.decl.function.free'',
      moduleName = ''Lib'', docBrief = None\<rparr>"

definition foo_spaced_entry :: catalog_entry where
  "foo_spaced_entry =
     \<lparr>entry_name = ''foo (bar:)'', entry_kind = ''source.lang.swift.decl.function.free'',
      moduleName = ''Lib'', docBrief = None\<rparr>"

definition foo_call :: node where
  "foo_call = Node (Some ''source.lang.swift.expr.call'') (Some ''foo(bar:)'') 0 []"

definition foo_declaration :: node where
  "foo_declaration = Node (Some ''source.lang.swift.decl.function.free'') (Some ''foo(bar:)'') 0 []"

definition food_call :: node where
  "food_call = Node (Some ''source.lang.swift.expr.call'') (Some ''food'') 0 []"

section \<open>Properties\<close>

subsection \<open>Offset to line and column\<close>

text \<open>
  C4, as stated: for the content \<open>a\<close>, newline, \<open>bb\<close>, newline, \<open>ccc\<close> and offset 4 the
  computed location is line 2, column 2. The code computes another column, so the claim
  as stated is refuted.
\<close>

theorem C4_findLineAndColumn_counterexample:
  "findLineAndColumn (holding example_content) ''a.swift'' 4 \<noteq> Some (2, 2)"
  by (simp add: findLineAndColumn_def holding_def example_content_def count_lines_def
        charAt_def newline_def eval_nat_numeral)

text \<open>
  C4, amended: for that content, offset 4 is the second newline character, the last
  character of line 2, and the computation yields line 2, column 3. The second \<open>b\<close> is at
  offset 3, and there the computation yields line 2, column 2.
\<close>

theorem C4_findLineAndColumn_example:
  "findLineAndColumn (holding example_content) fileName 4 = Some (2, 3)
   \<and> findLineAndColumn (holding example_content) fileName 3 = Some (2, 2)"
  by (simp add: findLineAndColumn_def holding_def example_content_def count_lines_def
        charAt_def newline_def eval_nat_numeral)

subsection \<open>Structural flattening\<close>

lemma extract_filter_retained:
  "list_all tagged (descendants n) \<longrightarrow>
     extractComponentsFromStructure n = filter retained (descendants n)"
  "list_all tagged (descendants_list cs) \<longrightarrow>
     substructure_loop cs = filter retained (descendants_list cs)"
  by (induction n and cs rule: extractComponentsFromStructure_substructure_loop.induct)
     (auto simp: retained_def tagged_def split: option.splits)

text \<open>
  C9. When every node of the structure carries a kind tag, the flat list is the pre-order
  list of all nodes below the root, filtered by the prefix test: a node is in the output
  if and only if it is retained, whatever the nodes above it are, and a parent comes before
  its descendants.
\<close>

theorem C9_structure_flattening:
  "list_all tagged (descendants fileStructure) \<Longrightarrow>
   extractComponentsFromStructure fileStructure = filter retained (descendants fileStructure)"
  by (simp add: extract_filter_retained)

theorem C9_structure_flattening_witness:
  "list_all tagged (descendants example_tree)
   \<and> extractComponentsFromStructure example_tree = [example_function, example_call]"
proof -
  have tagged: "list_all tagged (descendants example_tree)"
    by code_simp
  have "filter retained (descendants example_tree) = [example_function, example_call]"
    by code_simp
  with C9_structure_flattening [OF tagged] tagged show ?thesis
    by simp
qed

subsection \<open>Running the structure oracle\<close>

text \<open>
  C10. \<open>executeCommand\<close> returns a string in every case: the output of a command that
  succeeds, the trimmed message of the error of one that fails. A failed run of the
  structure oracle therefore reaches \<open>JSON.parse\<close> as that message, and
  \<open>getStructureFromFile\<close> fails or succeeds as the parser does on it.
\<close>

theorem C10_executeCommand_returns_message:
  "(execSync e command = Inr out \<longrightarrow> executeCommand e command = out)
   \<and> (execSync e command = Inl message \<longrightarrow> executeCommand e command = trim message)
   \<and> (execSync e (structure_command filePath) = Inl message \<longrightarrow>
        getStructureFromFile e filePath =
          (case JSON_parse e (trim message) of
             Inl parseMessage \<Rightarrow> Inl (''Error extracting public components: '' @ parseMessage)
           | Inr jsonData \<Rightarrow> Inr jsonData))"
  by (simp add: executeCommand_def getStructureFromFile_def)

theorem C10_executeCommand_returns_message_witness:
  "execSync example_env ''swift build'' = Inr ''{}''
   \<and> executeCommand example_env ''swift build'' = ''{}''
   \<and> execSync failing_env (structure_command ''a.swift'') = Inl '' /bin/sh: sourcekitten: not found ''
   \<and> executeCommand failing_env (structure_command ''a.swift'') = ''/bin/sh: sourcekitten: not found''
   \<and> getStructureFromFile failing_env ''a.swift''
       = Inl ''Error extracting public components: Unexpected token / in JSON at position 0''"
proof -
  have ok: "execSync example_env ''swift build'' = Inr ''{}''"
    by (simp add: example_env_def)
  have failed: "execSync failing_env (structure_command ''a.swift'')
      = Inl '' /bin/sh: sourcekitten: not found ''"
    by (simp add: failing_env_def)
  have trimmed: "trim '' /bin/sh: sourcekitten: not found '' = ''/bin/sh: sourcekitten: not found''"
    by code_simp
  have parse: "JSON_parse failing_env ''/bin/sh: sourcekitten: not found''
      = Inl ''Unexpected token / in JSON at position 0''"
    by (simp add: failing_env_def)
  from C10_executeCommand_returns_message
         [of example_env "''swift build''" "''{}''" "'' /bin/sh: sourcekitten: not found ''" "''a.swift''"]
       C10_executeCommand_returns_message
         [of failing_env "structure_command ''a.swift''" "[]" "'' /bin/sh: sourcekitten: not found ''" "''a.swift''"]
       ok failed
  show ?thesis
    by (simp add: trimmed parse)
qed

subsection \<open>Occurrence counters and locations\<close>

lemma sum_list_update_count:
  "sum_list (map snd (AList.update k (Suc (case map_of xs k of None \<Rightarrow> 0 | Some n \<Rightarrow> n)) xs))
     = Suc (sum_list (map snd xs))"
  by (induction xs) auto

lemma count_occurrence_consistent:
  "occurrences_consistent m \<Longrightarrow> occurrences_consistent (count_occurrence filePath m)"
  by (simp add: occurrences_consistent_def count_occurrence_def sum_list_update_count
        distinct_update)

lemma set_location_consistent:
  "occurrences_consistent (set_location filePath loc m) = occurrences_consistent m"
  by (simp add: occurrences_consistent_def set_location_def)

lemma new_metadata_consistent:
  "occurrences_consistent (new_metadata dsm third ex cn ct)"
  by (simp add: occurrences_consistent_def new_metadata_def)

lemma list_all_update:
  "list_all P xs \<Longrightarrow> P x \<Longrightarrow> list_all P (xs[r := x])"
  by (cases "r < length xs") (auto simp: list_all_length nth_list_update)

lemma list_all_nthD:
  "list_all P xs \<Longrightarrow> r < length xs \<Longrightarrow> P (xs ! r)"
  by (simp add: list_all_length)

lemma aggregate_consistent:
  assumes "list_all occurrences_consistent (heap st)"
  shows "list_all occurrences_consistent
           (heap (snd (aggregate get put third e component existingComponent fileContent filePath st)))"
  using assms
  by (auto simp: aggregate_def Let_def existing_object_def count_occurrence_consistent
        set_location_consistent new_metadata_consistent list_all_nthD
      intro!: list_all_update split: option.splits if_splits)

lemma aggregate_Ref:
  assumes "aggregate get put third e component existingComponent fileContent filePath st = (Ref r, st')"
  shows "\<exists>ln col. findLineAndColumn (readFile e) filePath (key_offset component) = Some (ln, col)
           \<and> r < length (heap st')
           \<and> map_of (filewiseLocation (heap st' ! r)) filePath
               = Some [\<lparr>line = ln, column = col, offset = key_offset component\<rparr>]
           \<and> totalOccurences (heap st' ! r)
               = (if r < length (heap st) then totalOccurences (heap st ! r) else 0) + 1
           \<and> map_of (filewiseOccurences (heap st' ! r)) filePath
               = Some ((case (if r < length (heap st)
                              then map_of (filewiseOccurences (heap st ! r)) filePath else None) of
                          None \<Rightarrow> 0 | Some n \<Rightarrow> n) + 1)"
  using assms
  by (auto simp: aggregate_def Let_def existing_object_def set_location_def count_occurrence_def
        new_metadata_def update_conv' nth_append
      split: option.splits if_splits)

text \<open>
  C5. One file with the call \<open>run()\<close> at offsets 0 and 6, scanned once by
  \<open>SwiftScanner.js\<close>: the store holds two objects with the key \<open>Lib/run/expr.call\<close>. The
  first keeps the location of offset 0 after the second match in the same file, and each
  counts one occurrence: the location of the key is not overwritten and no counter reaches
  2. This is the store of C1: the lookup finds nothing. The older copy, given the same two
  matches, keeps one object, whose location list holds the location of offset 6 alone and
  whose counters are 2.
\<close>

theorem C5_location_not_overwritten:
  "map (\<lambda>m. (meta_id m, totalOccurences m, filewiseOccurences m, filewiseLocation m))
     (heap (scanFilesRecursively example_env_two [] ''/proj/Sources/AppKit/main.swift'' File
              example_scanner))
     = [(''Lib/run/expr.call'', 1, [(''/proj/Sources/AppKit/main.swift'', 1)],
         [(''/proj/Sources/AppKit/main.swift'', [\<lparr>line = 1, column = 1, offset = 0\<rparr>])]),
        (''Lib/run/expr.call'', 1, [(''/proj/Sources/AppKit/main.swift'', 1)],
         [(''/proj/Sources/AppKit/main.swift'', [\<lparr>line = 2, column = 1, offset = 6\<rparr>])])]
   \<and> map (\<lambda>m. (meta_id m, totalOccurences m, filewiseOccurences m, filewiseLocation m))
     (heap (snd (processComponents_legacy example_env_two [example_call, example_call_again]
                   ''/proj/Sources/AppKit/main.swift'' example_source example_scanner)))
     = [(''Lib/run/expr.call'', 2, [(''/proj/Sources/AppKit/main.swift'', 2)],
         [(''/proj/Sources/AppKit/main.swift'', [\<lparr>line = 2, column = 1, offset = 6\<rparr>])])]"
  by code_simp

lemma extractMetadata_consistent:
  "extractMetadata e c ex fc fp st = (x, st') \<Longrightarrow>
   list_all occurrences_consistent (heap st) \<Longrightarrow> list_all occurrences_consistent (heap st')"
  using aggregate_consistent
          [of st array_get array_push "\<lambda>st modName. Some (isThirdParty st modName)" e c ex fc fp]
  by (simp add: extractMetadata_def)

lemma module_callback_consistent:
  "list_all occurrences_consistent (heap st) \<Longrightarrow>
   list_all occurrences_consistent (heap (snd (module_callback e c cn fc fp pcs st)))"
  by (induction pcs)
     (auto split: option.splits bool.splits prod.splits dest: extractMetadata_consistent)

lemma modules_forEach_consistent:
  "list_all occurrences_consistent (heap st) \<Longrightarrow>
   list_all occurrences_consistent (heap (snd (modules_forEach e c cn fc fp mcm st)))"
proof (induction mcm arbitrary: st)
  case Nil
  then show ?case by simp
next
  case (Cons m mcm)
  obtain modName pcs where m: "m = (modName, pcs)" by (cases m)
  have "list_all occurrences_consistent (heap (snd (module_callback e c cn fc fp pcs st)))"
    using Cons.prems by (rule module_callback_consistent)
  then show ?case
    using Cons.IH by (auto simp: m split: prod.splits completion.splits)
qed

lemma components_forEach_consistent:
  "list_all occurrences_consistent (heap st) \<Longrightarrow>
   list_all occurrences_consistent (heap (snd (components_forEach e mcm fc fp cs st)))"
proof (induction cs arbitrary: st)
  case Nil
  then show ?case by simp
next
  case (Cons c cs)
  have "list_all occurrences_consistent
          (heap (snd (modules_forEach e c (componentName_of c) fc fp mcm st)))"
    using Cons.prems by (rule modules_forEach_consistent)
  then show ?case
    using Cons.IH Cons.prems by (auto simp: Let_def split: prod.splits completion.splits)
qed

lemma extractComponentsFromFile_consistent:
  "list_all occurrences_consistent (heap st) \<Longrightarrow>
   list_all occurrences_consistent (heap (extractComponentsFromFile e filePath st))"
  by (auto simp: extractComponentsFromFile_def process_def extractComponents_def
        processComponents_def components_forEach_consistent split: sum.splits)

lemma scan_consistent:
  "list_all occurrences_consistent (heap st) \<longrightarrow>
     list_all occurrences_consistent (heap (scanFilesRecursively e ex filePath nd st))"
  "list_all occurrences_consistent (heap st) \<longrightarrow>
     list_all occurrences_consistent (heap (scan_files e ex filePath files st))"
  by (induction e ex filePath nd st and e ex filePath files st
        rule: scanFilesRecursively_scan_files.induct)
     (auto simp: console_log_def report_invalid_path_def extractComponentsFromFile_consistent)

lemma scan_command_consistent:
  "list_all occurrences_consistent (heap st) \<Longrightarrow>
   list_all occurrences_consistent (heap (scan_command e ex paths st))"
  by (induction paths arbitrary: st) (auto simp: scan_consistent)

lemma initialize_heap: "heap (loadDataset ds (initialize dsm built data constructor)) = []"
  by (auto simp: loadDataset_def initialize_def getDebugYaml_def constructor_def Let_def
      split: option.splits)

text \<open>
  C6. In every metadata object, \<open>totalOccurences\<close> is the sum of the values of
  \<open>filewiseOccurences\<close>: this holds when the scanner is constructed, every call of
  \<open>extractMetadata\<close> (of either copy of the file, creating or updating, returning normally
  or through its \<open>catch\<close>) keeps it, and so it holds after every run of the scan command.
\<close>

theorem C6_occurrences_consistent:
  "list_all occurrences_consistent (heap constructor)
   \<and> (list_all occurrences_consistent (heap st) \<longrightarrow>
        list_all occurrences_consistent
          (heap (snd (extractMetadata e component existingComponent fileContent filePath st)))
        \<and> list_all occurrences_consistent
          (heap (snd (extractMetadata_legacy e component existingComponent fileContent filePath st))))
   \<and> list_all occurrences_consistent
        (heap (scan_command e excludedFolders paths
                 (loadDataset ds (initialize dsm built data constructor))))"
proof -
  have "list_all occurrences_consistent (heap constructor)"
    by (simp add: constructor_def)
  moreover have "list_all occurrences_consistent
        (heap (scan_command e excludedFolders paths
                 (loadDataset ds (initialize dsm built data constructor))))"
    by (rule scan_command_consistent) (simp add: initialize_heap)
  ultimately show ?thesis
    by (simp add: extractMetadata_def extractMetadata_legacy_def aggregate_consistent)
qed

theorem C6_occurrences_consistent_witness:
  "list_all occurrences_consistent (heap example_counted)
   \<and> map (\<lambda>m. (totalOccurences m, filewiseOccurences m))
       (heap (snd (extractMetadata_legacy example_env example_call_again example_entry
                     example_source ''/proj/Sources/AppKit/main.swift'' example_counted)))
       = [(2, [(''/proj/Sources/AppKit/main.swift'', 2)])]
   \<and> list_all occurrences_consistent
       (heap (snd (extractMetadata_legacy example_env example_call_again example_entry
                     example_source ''/proj/Sources/AppKit/main.swift'' example_counted)))
   \<and> list_all occurrences_consistent
       (heap (snd (extractMetadata example_env example_call_again example_entry
                     example_source ''/proj/Sources/AppKit/main.swift'' example_counted)))"
proof -
  have counted: "list_all occurrences_consistent (heap example_counted)"
    by code_simp
  have counts: "map (\<lambda>m. (totalOccurences m, filewiseOccurences m))
       (heap (snd (extractMetadata_legacy example_env example_call_again example_entry
                     example_source ''/proj/Sources/AppKit/main.swift'' example_counted)))
       = [(2, [(''/proj/Sources/AppKit/main.swift'', 2)])]"
    by code_simp
  from C6_occurrences_consistent
         [of example_counted example_env example_call_again example_entry example_source
             "''/proj/Sources/AppKit/main.swift''"]
       counted counts
  show ?thesis
    by blast
qed

subsection \<open>Module topology\<close>

lemma length_takeWhile_neq:
  "c \<in> set xs \<Longrightarrow> length (takeWhile (\<lambda>x. x \<noteq> c) xs) < length xs"
  by (induction xs) auto

lemma takeWhile_neq_append:
  "c \<in> set xs \<Longrightarrow> takeWhile (\<lambda>x. x \<noteq> c) (xs @ ys) = takeWhile (\<lambda>x. x \<noteq> c) xs"
  by (induction xs) auto

lemma rev_tl_dropWhile:
  assumes "c \<in> set s"
  shows "rev (tl (dropWhile (\<lambda>x. x \<noteq> c) (rev s)))
         = take (length s - 1 - length (takeWhile (\<lambda>x. x \<noteq> c) (rev s))) s"
proof -
  let ?tw = "takeWhile (\<lambda>x. x \<noteq> c) (rev s)"
  have lt: "length ?tw < length s"
    using assms length_takeWhile_neq[of c "rev s"] by simp
  have "dropWhile (\<lambda>x. x \<noteq> c) (rev s) = drop (length ?tw) (rev s)"
    by (simp add: dropWhile_eq_drop)
  then have "tl (dropWhile (\<lambda>x. x \<noteq> c) (rev s)) = drop (Suc (length ?tw)) (rev s)"
    by (simp add: drop_Suc tl_drop)
  then have "rev (tl (dropWhile (\<lambda>x. x \<noteq> c) (rev s))) = take (length s - Suc (length ?tw)) s"
    by (simp add: rev_drop)
  then show ?thesis by simp
qed

lemma substring_nat:
  assumes "a \<le> b" "b \<le> length s"
  shows "substring s (int a) (int b) = take (b - a) (drop a s)"
proof -
  have "max 0 (min (int a) (int (length s))) = int a"
       "max 0 (min (int b) (int (length s))) = int b"
    using assms by auto
  moreover have "min (int a) (int b) = int a" "max (int a) (int b) = int b"
    using assms by auto
  moreover have "nat (int b - int a) = b - a" by simp
  ultimately show ?thesis
    by (simp add: substring_def Let_def del: of_nat_diff)
qed

lemma substring_stripped:
  assumes "CHR ''-'' \<in> set key" "startsWith key ''C.''"
  shows "substring key 2 (lastIndexOf key (CHR ''-'')) = stripped_key key"
proof -
  let ?L = "length key - 1 - length (takeWhile (\<lambda>x. x \<noteq> CHR ''-'') (rev key))"
  obtain rest where key: "key = ''C.'' @ rest"
    using assms(2) by (auto simp: startsWith_def prefix_def)
  have "CHR ''-'' \<in> set rest" using assms(1) key by auto
  then have "length (takeWhile (\<lambda>x. x \<noteq> CHR ''-'') (rev key)) < length rest"
    using length_takeWhile_neq[of "CHR ''-''" "rev rest"]
    by (simp add: key takeWhile_neq_append)
  then have L2: "2 \<le> ?L" "?L \<le> length key" using key by auto
  have "lastIndexOf key (CHR ''-'') = int ?L"
    using assms(1) by (simp add: lastIndexOf_def)
  then have "substring key 2 (lastIndexOf key (CHR ''-'')) = take (?L - 2) (drop 2 key)"
    using substring_nat[of 2 ?L key] L2 by simp
  also have "\<dots> = drop 2 (take ?L key)"
    using L2 by (simp add: drop_take)
  finally show ?thesis
    using assms(1) by (simp add: stripped_key_def rev_tl_dropWhile)
qed

lemma those_map_Some:
  "\<forall>k\<in>set ks. f k \<noteq> None \<Longrightarrow>
   those (map (\<lambda>k. map_option (Pair k) (f k)) ks) = Some (map (\<lambda>k. (k, the (f k))) ks)"
  by (induction ks) auto

lemma first_input_distinct:
  assumes "distinct (map fst cmds)" "(key, cmd) \<in> set cmds" "inputs cmd \<noteq> []"
  shows "first_input cmds key = Some (hd (inputs cmd))"
  using assms by (cases "inputs cmd") (auto simp: first_input_def)

lemma topology_of_modules:
  assumes "list_all (\<lambda>(key, cmd). startsWith key ''C.'' \<longrightarrow> CHR ''-'' \<in> set key) cmds"
  shows "map (\<lambda>m. (mod_name m, originalPath m, mod_isThirdParty m))
        (map (\<lambda>(k, p). module_of k p)
           (filter (\<lambda>(k, p). keep_module p)
              (map (\<lambda>(key, cmd). (key, hd (inputs cmd)))
                 (filter (\<lambda>(key, cmd). startsWith key ''C.'') cmds))))
      = topology_of cmds"
  using assms
  by (induction cmds)
     (auto simp: topology_of_def module_of_def Let_def keep_module_def substring_stripped)

text \<open>
  C7, as stated: the topology holds exactly the \<open>C.\<close> targets whose first input lies under
  the dependency-checkout root or does not lie under the build directory. In the package
  checked out at \<open>/work/my.build\<close> the source file of the module \<open>App\<close> lies under no
  build directory, so the topology as stated holds \<open>App\<close>; \<open>getDebugYaml\<close> leaves the
  module list empty, because the path contains the text \<open>.build\<close>. And the manifest
  without a \<open>PackageStructure\<close> command is as the specification describes it, yet
  \<open>getDebugYaml\<close> rejects it. The claim as stated is refuted.
\<close>

theorem C7_module_topology_counterexample:
  "manifest_as_specified mybuild_commands
   \<and> stated_topology_of mybuild_commands
       = [(''App'', ''/work/my.build/Sources/App/main.swift'', False)]
   \<and> map_option topology (getDebugYaml (Some mybuild_commands) constructor) = Some []
   \<and> manifest_as_specified bare_commands
   \<and> stated_topology_of bare_commands = [(''App'', ''/proj/Sources/App/main.swift'', False)]
   \<and> getDebugYaml (Some bare_commands) constructor = None"
  by code_simp

text \<open>
  C7, amended: for every manifest with distinct keys, a \<open>PackageStructure\<close> command and a
  first input for each \<open>C.<module>-<disambiguator>\<close> entry, \<open>getDebugYaml\<close> on a new
  scanner succeeds, and the module list it leaves holds, in the order of the manifest,
  exactly the \<open>C.\<close> targets whose first input contains the text \<open>.build/checkouts\<close> or
  does not contain the text \<open>.build\<close>; each module's name is its key without the leading
  \<open>C.\<close> and the trailing \<open>-\<close> disambiguator, and its third-party flag says whether the
  first input contains \<open>.build/checkouts\<close>.
\<close>

theorem C7_module_topology:
  assumes wf: "well_formed_manifest cmds"
  shows "\<exists>st'. getDebugYaml (Some cmds) constructor = Some st' \<and> topology st' = topology_of cmds"
proof -
  let ?isC = "\<lambda>key. startsWith key ''C.''"
  let ?modules = "filter (\<lambda>(key, cmd). ?isC key) cmds"
  have dist: "distinct (map fst cmds)"
    and ps: "map_of cmds ''PackageStructure'' \<noteq> None"
    and each: "\<And>key cmd. (key, cmd) \<in> set cmds \<Longrightarrow> ?isC key \<Longrightarrow>
                 inputs cmd \<noteq> [] \<and> CHR ''-'' \<in> set key"
    using wf by (auto simp: well_formed_manifest_def list_all_iff)
  have fi: "\<And>key cmd. (key, cmd) \<in> set ?modules \<Longrightarrow>
              first_input cmds key = Some (hd (inputs cmd))"
    using dist each by (auto intro: first_input_distinct)
  have keys: "filter ?isC (map fst cmds) = map fst ?modules"
    by (induction cmds) auto
  have "\<forall>k\<in>set (map fst ?modules). first_input cmds k \<noteq> None"
    using fi by fastforce
  then have those_eq:
    "those (map (\<lambda>k. map_option (Pair k) (first_input cmds k)) (filter ?isC (map fst cmds)))
      = Some (map (\<lambda>k. (k, the (first_input cmds k))) (map fst ?modules))"
    unfolding keys by (rule those_map_Some)
  have keyed: "map (\<lambda>k. (k, the (first_input cmds k))) (map fst ?modules)
      = map (\<lambda>(key, cmd). (key, hd (inputs cmd))) ?modules"
    using fi by (auto simp: map_eq_conv)
  have proj: "map (\<lambda>m. (mod_name m, originalPath m, mod_isThirdParty m))
        (map (\<lambda>(k, p). module_of k p)
           (filter (\<lambda>(k, p). keep_module p)
              (map (\<lambda>(key, cmd). (key, hd (inputs cmd))) ?modules)))
      = topology_of cmds"
    using each by (intro topology_of_modules) (auto simp: list_all_iff)
  obtain packageStructure where "map_of cmds ''PackageStructure'' = Some packageStructure"
    using ps by auto
  moreover note those_eq[unfolded keyed]
  ultimately show ?thesis
    using proj by (simp add: getDebugYaml_def Let_def topology_def constructor_def)
qed

theorem C7_module_topology_witness:
  "well_formed_manifest example_commands
   \<and> (\<exists>st'. getDebugYaml (Some example_commands) constructor = Some st'
        \<and> topology st' =
            [(''AppKit'', ''/proj/Sources/AppKit/main.swift'', False),
             (''Lib'', ''/proj/.build/checkouts/Lib/Sources/Lib/Lib.swift'', True)])"
proof -
  have wf: "well_formed_manifest example_commands"
    by code_simp
  have "topology_of example_commands =
            [(''AppKit'', ''/proj/Sources/AppKit/main.swift'', False),
             (''Lib'', ''/proj/.build/checkouts/Lib/Sources/Lib/Lib.swift'', True)]"
    by code_simp
  with C7_module_topology [OF wf] wf show ?thesis
    by simp
qed

subsection \<open>The matching rule\<close>

lemma aggregate_projectComponents:
  "projectComponents (snd (aggregate get put third e c ex fc fp st)) = projectComponents st"
  by (auto simp: aggregate_def Let_def split: option.splits)

lemma extractMetadata_projectComponents:
  "extractMetadata e c ex fc fp st = (x, st') \<Longrightarrow> projectComponents st' = projectComponents st"
  using aggregate_projectComponents
          [of array_get array_push "\<lambda>st modName. Some (isThirdParty st modName)" e c ex fc fp st]
  by (simp add: extractMetadata_def)

lemma base_name_Nil: "base_name [] = []"
  by (simp add: base_name_def split_def trim_def)

lemma match_declared_iff:
  "match_declared e st filePath fileContent entry component = match_rule entry component"
  by (auto simp: match_declared_def match_rule_def kinds_compatible_def processComponents_def
        moduleComponentsMap_def preprocess_def componentName_of_def kind_test_def Let_def
        base_name_Nil
      split: option.splits prod.splits bool.splits completion.splits if_splits
      dest: extractMetadata_projectComponents)

text \<open>
  C3, as stated: a match is declared if and only if the substrings before the first \<open>(\<close>
  are equal and the kinds are compatible. The entry \<open>foo (bar:)\<close> and the candidate
  \<open>foo(bar:)\<close> differ in that substring, and the matcher declares a match: the claim as
  stated is refuted.
\<close>

theorem C3_match_rule_counterexample:
  "match_declared example_env example_scanner ''/proj/Sources/AppKit/main.swift'' example_source
     foo_spaced_entry foo_call
   \<noteq> stated_match_rule foo_spaced_entry foo_call"
proof -
  have "match_rule foo_spaced_entry foo_call"
    by code_simp
  moreover have "\<not> stated_match_rule foo_spaced_entry foo_call"
    by code_simp
  ultimately show ?thesis
    by (simp add: match_declared_iff)
qed

text \<open>
  C3, amended: the matcher declares a match between a catalog entry and a candidate if and
  only if both have a name, the candidate's base name is not empty, their base names (the
  substring before the first \<open>(\<close>, with white space trimmed at both ends) are equal, and
  either the entry's kind contains \<open>function\<close> while the candidate's kind contains
  \<open>expr\<close>, or the two kinds are equal. The entry \<open>foo(bar:)\<close> of kind
  \<open>function.free\<close> matches the candidate \<open>foo(bar:)\<close> of kind \<open>expr.call\<close> and the
  candidate with the entry's own kind, and does not match the candidate \<open>food\<close>.
\<close>

theorem C3_match_rule:
  "match_declared e st filePath fileContent entry component = match_rule entry component
   \<and> match_declared e st filePath fileContent foo_entry foo_call
   \<and> match_declared e st filePath fileContent foo_entry foo_declaration
   \<and> \<not> match_declared e st filePath fileContent foo_entry food_call"
proof -
  have "match_rule foo_entry foo_call"
    by code_simp
  moreover have "match_rule foo_entry foo_declaration"
    by code_simp
  moreover have "\<not> match_rule foo_entry food_call"
    by code_simp
  ultimately show ?thesis
    by (simp add: match_declared_iff)
qed

subsection \<open>First match and the metadata store\<close>

text \<open>
  Within one module the matcher of \<open>SwiftScanner.js\<close> stops at the first matching entry;
  the older copy stops at the first matching entry of the whole catalog, and its store
  has one object per key.
\<close>

lemma module_callback_one_update:
  "length (projectComponents (snd (module_callback e c cn fc fp pcs st)))
     \<le> Suc (length (projectComponents st))"
  by (induction pcs)
     (auto split: option.splits bool.splits prod.splits dest: extractMetadata_projectComponents)

lemma extractMetadata_legacy_projectComponents:
  "extractMetadata_legacy e c ex fc fp st = (x, st') \<Longrightarrow>
   projectComponents st' = projectComponents st"
  using aggregate_projectComponents[of object_get object_set isThirdParty_legacy e c ex fc fp st]
  by (simp add: extractMetadata_legacy_def)

lemma modules_loop_legacy_one_update:
  "length (projectComponents (snd (modules_loop_legacy e c fc fp ds st)))
     \<le> Suc (length (projectComponents st))"
proof (induction ds)
  case Nil
  then show ?case by simp
next
  case (Cons m ds)
  obtain modName moduleComponents where m: "m = (modName, moduleComponents)" by (cases m)
  show ?case
  proof (cases "find_existing (key_name c) (key_kind c) moduleComponents")
    case None
    then show ?thesis by (simp add: m)
  next
    case (Some found)
    show ?thesis
    proof (cases found)
      case None
      then show ?thesis using Some Cons.IH by (simp add: m)
    next
      case (Some existingComponent)
      obtain x st' where ex: "extractMetadata_legacy e c existingComponent fc fp st = (x, st')"
        by (cases "extractMetadata_legacy e c existingComponent fc fp st")
      then have "projectComponents st' = projectComponents st"
        by (rule extractMetadata_legacy_projectComponents)
      then show ?thesis
        using \<open>find_existing (key_name c) (key_kind c) moduleComponents = Some found\<close> Some ex
        by (simp add: m)
    qed
  qed
qed

text \<open>
  Once \<open>thirdPartyDependencies\<close> is an object, the older copy creates no metadata: for a
  key that is not in the store \<open>extractMetadata\<close> ends in its \<open>catch\<close>.
\<close>

lemma extractMetadata_legacy_object:
  "extractMetadata_legacy example_env example_call example_entry example_source
     ''/proj/Sources/AppKit/main.swift'' example_scanner_object
   = (EmptyObject, example_scanner_object)"
  by code_simp

lemma extractMetadata_legacy_keys_distinct:
  "distinct (map fst (named (codebaseComponents st))) \<Longrightarrow>
   distinct (map fst (named (codebaseComponents
      (snd (extractMetadata_legacy e c ex fc fp st)))))"
  by (auto simp: extractMetadata_legacy_def aggregate_def object_set_def distinct_update Let_def
      split: option.splits)

text \<open>
  C2. One candidate and a catalog in which two modules export \<open>run()\<close>:
  \<open>processComponents\<close> of \<open>SwiftScanner.js\<close> resolves the candidate once per module and
  makes two metadata updates, the older copy stops at the first module.
\<close>

theorem C2_match_per_module:
  "projectComponents (snd (processComponents example_env [example_call]
       ''/proj/Sources/AppKit/main.swift'' example_source example_scanner_two))
     = [Ref 0, Ref 1]
   \<and> map meta_id (heap (snd (processComponents example_env [example_call]
       ''/proj/Sources/AppKit/main.swift'' example_source example_scanner_two)))
     = [''Lib/run/expr.call'', ''Other/run/expr.call'']
   \<and> projectComponents (snd (processComponents_legacy example_env [example_call]
       ''/proj/Sources/AppKit/main.swift'' example_source example_scanner_two))
     = [Ref 0]
   \<and> map meta_id (heap (snd (processComponents_legacy example_env [example_call]
       ''/proj/Sources/AppKit/main.swift'' example_source example_scanner_two)))
     = [''Lib/run/expr.call'']"
  by code_simp

text \<open>
  The lookup on the array reads an element for an index key and a named property for any
  other key.
\<close>

lemma array_get_examples:
  "array_get \<lparr>items = [7, 8], named = [(''a/b'', 3)]\<rparr> ''1'' = Some 8
   \<and> array_get \<lparr>items = [7, 8], named = [(''a/b'', 3)]\<rparr> ''2'' = None
   \<and> array_get \<lparr>items = [7, 8], named = [(''a/b'', 3)]\<rparr> ''01'' = None
   \<and> array_get \<lparr>items = [7, 8], named = [(''a/b'', 3)]\<rparr> ''a/b'' = Some 3
   \<and> array_get \<lparr>items = [7, 8], named = []\<rparr> ''a/b'' = None"
  by (simp add: array_get_def array_index_def is_digit_def)

lemma slash_no_index: "CHR ''/'' \<in> set key \<Longrightarrow> array_index key = None"
  by (auto simp: array_index_def list_all_iff is_digit_def)

lemma metadataId_slash: "CHR ''/'' \<in> set (metadataId_of ex cn ct)"
  by (simp add: metadataId_of_def)

text \<open>
  In \<open>SwiftScanner.js\<close> nothing assigns a named property of \<open>codebaseComponents\<close>, and
  a \<open>metadataId\<close> is never an array index: the lookup finds nothing, and every match
  allocates a new object and pushes it.
\<close>

lemma extractMetadata_always_new:
  assumes "named (codebaseComponents st) = []"
    and "extractMetadata e c ex fc fp st = (Ref r, st')"
  shows "r = length (heap st) \<and> length (heap st') = Suc (length (heap st))
         \<and> items (codebaseComponents st') = items (codebaseComponents st) @ [r]
         \<and> named (codebaseComponents st') = []"
  using assms
  by (auto simp: extractMetadata_def aggregate_def Let_def existing_object_def array_get_def
        array_push_def slash_no_index metadataId_slash split: option.splits)

text \<open>
  C1. Scanning the same file twice with \<open>SwiftScanner.js\<close>: the store holds two objects
  with the same key, each with \<open>totalOccurences\<close> 1. The older copy, given the same two
  matches, keeps one object under the key and counts 2.
\<close>

theorem C1_duplicate_metadata_keys:
  "map (\<lambda>m. (meta_id m, totalOccurences m))
     (heap (scan_command example_env []
        [(''/proj/Sources/AppKit/main.swift'', File), (''/proj/Sources/AppKit/main.swift'', File)]
        example_scanner))
     = [(''Lib/run/expr.call'', 1), (''Lib/run/expr.call'', 1)]
   \<and> codebaseComponents (scan_command example_env []
        [(''/proj/Sources/AppKit/main.swift'', File), (''/proj/Sources/AppKit/main.swift'', File)]
        example_scanner)
     = \<lparr>items = [0, 1], named = []\<rparr>
   \<and> map (\<lambda>m. (meta_id m, totalOccurences m))
     (heap (snd (processComponents_legacy example_env [example_call]
        ''/proj/Sources/AppKit/main.swift'' example_source
        (snd (processComponents_legacy example_env [example_call]
           ''/proj/Sources/AppKit/main.swift'' example_source example_scanner)))))
     = [(''Lib/run/expr.call'', 2)]
   \<and> codebaseComponents (snd (processComponents_legacy example_env [example_call]
        ''/proj/Sources/AppKit/main.swift'' example_source
        (snd (processComponents_legacy example_env [example_call]
           ''/proj/Sources/AppKit/main.swift'' example_source example_scanner))))
     = \<lparr>items = [], named = [(''Lib/run/expr.call'', 0)]\<rparr>"
  by code_simp

subsection \<open>The walker\<close>

lemma aggregate_console:
  assumes "\<And>m. third (st\<lparr>console := x\<rparr>) m = third st m"
  shows "aggregate get put third e c ex fc fp (st\<lparr>console := x\<rparr>)
         = (fst (aggregate get put third e c ex fc fp st),
            (snd (aggregate get put third e c ex fc fp st))\<lparr>console := x\<rparr>)"
  using assms
  by (auto simp: aggregate_def Let_def existing_object_def split: option.splits)

lemma extractMetadata_console:
  "extractMetadata e c ex fc fp (st\<lparr>console := x\<rparr>)
   = (fst (extractMetadata e c ex fc fp st),
      (snd (extractMetadata e c ex fc fp st))\<lparr>console := x\<rparr>)"
  unfolding extractMetadata_def by (rule aggregate_console) (simp add: isThirdParty_def)

lemma module_callback_console:
  "module_callback e c cn fc fp pcs (st\<lparr>console := x\<rparr>)
   = (fst (module_callback e c cn fc fp pcs st),
      (snd (module_callback e c cn fc fp pcs st))\<lparr>console := x\<rparr>)"
  by (induction pcs)
     (auto simp: extractMetadata_console split: option.splits bool.splits prod.splits)

lemma modules_forEach_console:
  "modules_forEach e c cn fc fp mcm (st\<lparr>console := x\<rparr>)
   = (fst (modules_forEach e c cn fc fp mcm st),
      (snd (modules_forEach e c cn fc fp mcm st))\<lparr>console := x\<rparr>)"
proof (induction mcm arbitrary: st)
  case Nil
  then show ?case by simp
next
  case (Cons m mcm)
  obtain modName pcs where m: "m = (modName, pcs)" by (cases m)
  show ?case
    by (cases "module_callback e c cn fc fp pcs st")
       (auto simp: m module_callback_console Cons.IH split: completion.splits)
qed

lemma components_forEach_console:
  "components_forEach e mcm fc fp cs (st\<lparr>console := x\<rparr>)
   = (fst (components_forEach e mcm fc fp cs st),
      (snd (components_forEach e mcm fc fp cs st))\<lparr>console := x\<rparr>)"
proof (induction cs arbitrary: st)
  case Nil
  then show ?case by simp
next
  case (Cons c cs)
  show ?case
    by (cases "modules_forEach e c (componentName_of c) fc fp mcm st")
       (auto simp: Let_def modules_forEach_console Cons.IH split: completion.splits)
qed

lemma extractComponentsFromFile_console:
  "extractComponentsFromFile e filePath (st\<lparr>console := x\<rparr>)
   = (extractComponentsFromFile e filePath st)\<lparr>console := x\<rparr>"
  by (auto simp: extractComponentsFromFile_def process_def extractComponents_def
        processComponents_def components_forEach_console split: sum.splits)

lemma forget_console_eqD:
  "forget_console a = forget_console b \<Longrightarrow> a = b\<lparr>console := console a\<rparr>"
  by (cases a, cases b) (simp add: forget_console_def)

lemma scan_console:
  "\<forall>x. forget_console (scanFilesRecursively e ex filePath nd (st\<lparr>console := x\<rparr>))
        = forget_console (scanFilesRecursively e ex filePath nd st)"
  "\<forall>x. forget_console (scan_files e ex filePath files (st\<lparr>console := x\<rparr>))
        = forget_console (scan_files e ex filePath files st)"
proof (induction e ex filePath nd st and e ex filePath files st
        rule: scanFilesRecursively_scan_files.induct)
  case (6 e excludedFolders filePath fname child rest st)
  show ?case
  proof (cases "fname \<in> set excludedFolders")
    case True
    then show ?thesis using 6(1) by simp
  next
    case False
    show ?thesis
    proof
      fix x
      let ?a = "scanFilesRecursively e excludedFolders (path_join filePath fname) child
                  (st\<lparr>console := x\<rparr>)"
      let ?b = "scanFilesRecursively e excludedFolders (path_join filePath fname) child st"
      have "forget_console ?a = forget_console ?b" using 6(2)[OF False] by simp
      then have "?a = ?b\<lparr>console := console ?a\<rparr>" by (rule forget_console_eqD)
      then have "forget_console (scan_files e excludedFolders filePath rest ?a)
               = forget_console (scan_files e excludedFolders filePath rest ?b)"
        using 6(3)[OF False] by metis
      then show "forget_console
            (scan_files e excludedFolders filePath ((fname, child) # rest) (st\<lparr>console := x\<rparr>))
          = forget_console (scan_files e excludedFolders filePath ((fname, child) # rest) st)"
        using False by simp
    qed
  qed
qed (auto simp: forget_console_def console_log_def report_invalid_path_def validPath_def
       extractComponentsFromFile_console)

lemma scan_command_console:
  "forget_console (scan_command e ex paths (st\<lparr>console := x\<rparr>))
   = forget_console (scan_command e ex paths st)"
proof (induction paths arbitrary: st x)
  case Nil
  then show ?case by (simp add: forget_console_def)
next
  case (Cons p paths)
  obtain filePath nd where p: "p = (filePath, nd)" by (cases p)
  let ?a = "scanFilesRecursively e ex filePath nd (st\<lparr>console := x\<rparr>)"
  let ?b = "scanFilesRecursively e ex filePath nd st"
  have "forget_console ?a = forget_console ?b" using scan_console(1) by blast
  then have "?a = ?b\<lparr>console := console ?a\<rparr>" by (rule forget_console_eqD)
  then show ?case using Cons.IH by (simp add: p) metis
qed

text \<open>
  A directory whose path is not a substring of any module path is rejected: the walker
  prints the guidance and the module paths and changes nothing else, and the other paths
  of the invocation are scanned with the same result as without it.
\<close>

lemma scanFilesRecursively_rejects:
  assumes "is_directory nd"
    and "\<forall>m\<in>set (projectModulesList st). \<not> str_includes (mod_path m) directoryPath"
  shows "scanFilesRecursively e ex directoryPath nd st
        = st\<lparr>console := console st @
            [''Directory path does not include any module path. Please provide a valid scan path.'',
             ''Available module paths:'']
            @ map (\<lambda>m. '' - '' @ mod_path m) (projectModulesList st)\<rparr>"
    and "forget_console (scan_command e ex ((directoryPath, nd) # rest) st)
          = forget_console (scan_command e ex rest st)"
proof -
  have "scanFilesRecursively e ex directoryPath nd st = report_invalid_path st"
    using assms by (cases nd) (auto simp: is_directory_def validPath_def list_ex_iff)
  then show "scanFilesRecursively e ex directoryPath nd st
        = st\<lparr>console := console st @
            [''Directory path does not include any module path. Please provide a valid scan path.'',
             ''Available module paths:'']
            @ map (\<lambda>m. '' - '' @ mod_path m) (projectModulesList st)\<rparr>"
    and "forget_console (scan_command e ex ((directoryPath, nd) # rest) st)
          = forget_console (scan_command e ex rest st)"
    by (auto simp: report_invalid_path_def scan_command_console)
qed

text \<open>
  C8. The directory \<open>/proj/Sources/App\<close> neither lies under nor contains either of the
  two module directories, and \<open>getModuleName\<close>, the test of the older copy of the walker,
  finds no module for it. \<open>validPath\<close> of \<open>SwiftScanner.js\<close> tests whether the directory's
  path occurs in a module's path, and it occurs in \<open>/proj/Sources/AppKit\<close>: the
  directory is accepted, its file is scanned and a match is aggregated.
\<close>

theorem C8_sibling_directory_accepted:
  "map mod_path (projectModulesList example_scanner)
     = [''/proj/Sources/AppKit'', ''/proj/.build/checkouts/Lib/Sources/Lib'']
   \<and> \<not> lies_under ''/proj/Sources/App'' ''/proj/Sources/AppKit''
   \<and> \<not> contains_path ''/proj/Sources/App'' ''/proj/Sources/AppKit''
   \<and> \<not> lies_under ''/proj/Sources/App'' ''/proj/.build/checkouts/Lib/Sources/Lib''
   \<and> \<not> contains_path ''/proj/Sources/App'' ''/proj/.build/checkouts/Lib/Sources/Lib''
   \<and> \<not> validPath_legacy example_scanner ''/proj/Sources/App''
   \<and> validPath example_scanner ''/proj/Sources/App''
   \<and> projectComponents
        (scanFilesRecursively example_env [] ''/proj/Sources/App'' example_directory example_scanner)
       = [Ref 0]
   \<and> map meta_id (heap
        (scanFilesRecursively example_env [] ''/proj/Sources/App'' example_directory example_scanner))
       = [''Lib/run/expr.call'']"
  by code_simp

end
